theory Spec2Isabelle
  imports Main
begin

section \<open>JavaScript values\<close>

text \<open>
  The controllers of \<^verbatim>\<open>server/controllers/emails.js\<close> handle parsed JSON: request
  bodies, the company-information payload and the completion object. A value is one of
  the JSON shapes or \<^verbatim>\<open>undefined\<close>. An object is the list of its own properties in
  enumeration order; a string is a list of 8-bit code units. Numbers are the safe
  integers, those between \<^verbatim>\<open>Number.MIN_SAFE_INTEGER\<close> and \<^verbatim>\<open>Number.MAX_SAFE_INTEGER\<close>: a
  double holds each of them exactly and prints it in plain decimal digits.
\<close>

typedef safe_int = "{n :: int. - 9007199254740991 \<le> n \<and> n \<le> 9007199254740991}"
  morphisms int_of safe_int_of
  by (rule exI [of _ 0]) simp

setup_lifting type_definition_safe_int

text \<open>
  The number of an integer. Lengths are the only integers the controllers compute, and
  an array or a string has fewer elements than \<^verbatim>\<open>Number.MAX_SAFE_INTEGER\<close>; beyond the
  range the bound stands for the integer.
\<close>

lift_definition num :: "int \<Rightarrow> safe_int"
  is "\<lambda>n. max (- 9007199254740991) (min 9007199254740991 n)"
  by simp

datatype jsval =
    JUndefined
  | JNull
  | JBool bool
  | JNum safe_int
  | JStr string
  | JArr "jsval list"
  | JObj "(string \<times> jsval) list"

datatype error =
    TypeError
  | RequestFailed
  | Error string

text \<open>Truthiness, as used by \<^verbatim>\<open>if (x)\<close>, \<^verbatim>\<open>!x\<close> and \<^verbatim>\<open>x ? a : b\<close>.\<close>

fun truthy :: "jsval \<Rightarrow> bool" where
  "truthy JUndefined = False"
| "truthy JNull = False"
| "truthy (JBool b) = b"
| "truthy (JNum n) = (int_of n \<noteq> 0)"
| "truthy (JStr s) = (s \<noteq> [])"
| "truthy (JArr xs) = True"
| "truthy (JObj fs) = True"

fun isArray :: "jsval \<Rightarrow> bool" where
  "isArray (JArr xs) = True"
| "isArray v = False"

fun elements :: "jsval \<Rightarrow> jsval list" where
  "elements (JArr xs) = xs"
| "elements v = []"

text \<open>
  Property read \<^verbatim>\<open>v.name\<close>, for the names the controllers read (\<^verbatim>\<open>length\<close> and data
  fields). Reading a property of \<^verbatim>\<open>null\<close> or \<^verbatim>\<open>undefined\<close> throws a TypeError; a
  property that is not there reads as \<^verbatim>\<open>undefined\<close>.
\<close>

fun js_get :: "jsval \<Rightarrow> string \<Rightarrow> error + jsval" where
  "js_get JUndefined name = Inl TypeError"
| "js_get JNull name = Inl TypeError"
| "js_get (JObj fs) name = Inr (case map_of fs name of None \<Rightarrow> JUndefined | Some v \<Rightarrow> v)"
| "js_get (JArr xs) name = Inr (if name = ''length'' then JNum (num (int (length xs))) else JUndefined)"
| "js_get (JStr s) name = Inr (if name = ''length'' then JNum (num (int (length s))) else JUndefined)"
| "js_get v name = Inr JUndefined"

text \<open>Element read \<^verbatim>\<open>v[0]\<close>.\<close>

fun js_first :: "jsval \<Rightarrow> error + jsval" where
  "js_first JUndefined = Inl TypeError"
| "js_first JNull = Inl TypeError"
| "js_first (JArr xs) = Inr (case xs of [] \<Rightarrow> JUndefined | x # rest \<Rightarrow> x)"
| "js_first (JStr s) = Inr (case s of [] \<Rightarrow> JUndefined | c # rest \<Rightarrow> JStr [c])"
| "js_first (JObj fs) = Inr (case map_of fs ''0'' of None \<Rightarrow> JUndefined | Some v \<Rightarrow> v)"
| "js_first v = Inr JUndefined"

subsection \<open>Strings\<close>

fun dec_nat :: "nat \<Rightarrow> string" where
  "dec_nat n =
     (if n < 10 then [char_of (48 + n)] else dec_nat (n div 10) @ [char_of (48 + n mod 10)])"

definition dec_int :: "int \<Rightarrow> string" where
  "dec_int n = (if n < 0 then ''-'' @ dec_nat (nat (- n)) else dec_nat (nat n))"

text \<open>\<^verbatim>\<open>Array.prototype.join\<close> on an array of strings.\<close>

fun join_with :: "string \<Rightarrow> string list \<Rightarrow> string" where
  "join_with sep [] = []"
| "join_with sep [x] = x"
| "join_with sep (x # y # ys) = x @ sep @ join_with sep (y # ys)"

text \<open>
  \<^verbatim>\<open>String.prototype.split\<close> with a one-character separator: the segments between the
  occurrences of the separator, in order; a string without the separator (the empty
  string too) is a single segment.
\<close>

fun split_on :: "char \<Rightarrow> string \<Rightarrow> string list" where
  "split_on sep [] = [[]]"
| "split_on sep (c # cs) =
     (if c = sep then [] # split_on sep cs
      else (case split_on sep cs of
              [] \<Rightarrow> [[c]]
            | seg # segs \<Rightarrow> (c # seg) # segs))"

text \<open>The results of a list of steps that may throw: the first error, or all the values.\<close>

fun sequence :: "(error + 'a) list \<Rightarrow> error + 'a list" where
  "sequence [] = Inr []"
| "sequence (Inl e # rs) = Inl e"
| "sequence (Inr x # rs) = (case sequence rs of Inl e \<Rightarrow> Inl e | Inr xs \<Rightarrow> Inr (x # xs))"

text \<open>
  The string a template literal \<^verbatim>\<open>${v}\<close> puts in place of a value, or the TypeError it
  throws. An object is converted by its \<^verbatim>\<open>toString\<close>: the inherited one gives
  \<^verbatim>\<open>[object Object]\<close>, but an own property of that name (in parsed JSON never a function)
  hides it, and with \<^verbatim>\<open>valueOf\<close> returning the object itself the conversion throws. An
  array joins the conversions of its elements, \<^verbatim>\<open>null\<close> and \<^verbatim>\<open>undefined\<close> counting as empty.
\<close>

fun js_to_string :: "jsval \<Rightarrow> error + string" where
  "js_to_string JUndefined = Inr ''undefined''"
| "js_to_string JNull = Inr ''null''"
| "js_to_string (JBool b) = Inr (if b then ''true'' else ''false'')"
| "js_to_string (JNum n) = Inr (dec_int (int_of n))"
| "js_to_string (JStr s) = Inr s"
| "js_to_string (JArr xs) =
     (case sequence
             (map (\<lambda>x. if x = JUndefined \<or> x = JNull then Inr [] else js_to_string x) xs) of
        Inl e \<Rightarrow> Inl e
      | Inr parts \<Rightarrow> Inr (join_with '','' parts))"
| "js_to_string (JObj fs) =
     (case map_of fs ''toString'' of
        None \<Rightarrow> Inr ''[object Object]''
      | Some v \<Rightarrow> Inl TypeError)"

text \<open>
  The error thrown, if any, when a template literal with these substitutions is
  evaluated. This is all the model keeps of the texts written to the console.
\<close>

definition template_error :: "jsval list \<Rightarrow> error option" where
  "template_error subs =
     (case sequence (map js_to_string subs) of Inl e \<Rightarrow> Some e | Inr parts \<Rightarrow> None)"

text \<open>\<^verbatim>\<open>JSON.stringify\<close>.\<close>

definition hex_digit :: "nat \<Rightarrow> char" where
  "hex_digit d = (if d < 10 then char_of (48 + d) else char_of (87 + d))"

definition json_escape :: "char \<Rightarrow> string" where
  "json_escape c =
     (if c = CHR 0x22 then [CHR 0x5C, CHR 0x22]
      else if c = CHR 0x5C then [CHR 0x5C, CHR 0x5C]
      else if c = CHR 0x08 then [CHR 0x5C, CHR ''b'']
      else if c = CHR 0x09 then [CHR 0x5C, CHR ''t'']
      else if c = CHR 0x0A then [CHR 0x5C, CHR ''n'']
      else if c = CHR 0x0C then [CHR 0x5C, CHR ''f'']
      else if c = CHR 0x0D then [CHR 0x5C, CHR ''r'']
      else if (of_char c :: nat) < 32
        then [CHR 0x5C, CHR ''u'', CHR ''0'', CHR ''0'',
              hex_digit (of_char c div 16), hex_digit (of_char c mod 16)]
      else [c])"

definition json_quote :: "string \<Rightarrow> string" where
  "json_quote s = [CHR 0x22] @ concat (map json_escape s) @ [CHR 0x22]"

fun json_stringify :: "jsval \<Rightarrow> string" where
  "json_stringify JUndefined = ''undefined''"
| "json_stringify JNull = ''null''"
| "json_stringify (JBool b) = (if b then ''true'' else ''false'')"
| "json_stringify (JNum n) = dec_int (int_of n)"
| "json_stringify (JStr s) = json_quote s"
| "json_stringify (JArr xs) =
     ''['' @ join_with '',''
        (map (\<lambda>x. if x = JUndefined then ''null'' else json_stringify x) xs) @ '']''"
| "json_stringify (JObj fs) =
     ''{'' @ join_with '',''
        (map (\<lambda>(k, v). json_quote k @ '':'' @ json_stringify v)
           (filter (\<lambda>(k, v). v \<noteq> JUndefined) fs)) @ ''}''"

text \<open>\<^verbatim>\<open>String.prototype.trim\<close>: white space and line terminators go from both ends.\<close>

definition is_space :: "char \<Rightarrow> bool" where
  "is_space c =
     (c = CHR 0x09 \<or> c = CHR 0x0A \<or> c = CHR 0x0B \<or> c = CHR 0x0C \<or> c = CHR 0x0D
      \<or> c = CHR 0x20 \<or> c = CHR 0xA0)"

definition trim :: "string \<Rightarrow> string" where
  "trim s = rev (dropWhile is_space (rev (dropWhile is_space s)))"

section \<open>Process state\<close>

text \<open>
  The module-level state and the traffic with the outside: the cache, the clock
  (milliseconds), and one log per collaborator holding what was handed to it, in the
  order of the calls: the paths given to \<^verbatim>\<open>axiosInstance.get\<close>, the requests given to
  the completion API, the option objects given to \<^verbatim>\<open>transporter.sendMail\<close>.
\<close>

record mailOptions =
  mail_from :: jsval
  mail_to :: jsval
  mail_subject :: jsval
  mail_text :: jsval

record world =
  cache :: "string \<rightharpoonup> (jsval \<times> nat)"
  now :: nat
  http_log :: "string list"
  llm_log :: "jsval list"
  mail_log :: "mailOptions list"

subsection \<open>Company Info Cache\<close>

text \<open>
  Modelled from the spec: the cache object is an instance of the \<^verbatim>\<open>node-cache\<close>
  package, which is not part of the sources; its \<^verbatim>\<open>get\<close> and \<^verbatim>\<open>set\<close> follow
  section 4.1 of the specification. \<^verbatim>\<open>set\<close> stores the value with expiration
  \<^verbatim>\<open>now + TTL\<close>; \<^verbatim>\<open>get\<close> on a missing key, or on an entry whose expiration lies in the
  past, gives \<^verbatim>\<open>undefined\<close>. The TTL is the \<^verbatim>\<open>stdTTL: 3600\<close> (seconds) of the source.
\<close>

definition stdTTL :: nat where
  "stdTTL = 3600"

definition cache_get :: "world \<Rightarrow> string \<Rightarrow> jsval" where
  "cache_get w key =
     (case cache w key of
        None \<Rightarrow> JUndefined
      | Some (v, expires) \<Rightarrow> if expires < now w then JUndefined else v)"

definition cache_set :: "string \<Rightarrow> jsval \<Rightarrow> world \<Rightarrow> world" where
  "cache_set key v w = w\<lparr>cache := (cache w)(key \<mapsto> (v, now w + stdTTL * 1000))\<rparr>"

section \<open>Company Info Fetcher\<close>

text \<open>
  The cache key and the request path for a company name that has been converted to a
  string. Each of the templates \<^verbatim>\<open>`company:${companyName}`\<close> and
  \<^verbatim>\<open>`/company?name=${companyName}`\<close> converts the name first, and throws when that throws.
\<close>

definition company_key :: "string \<Rightarrow> string" where
  "company_key name = ''company:'' @ name"

definition company_url :: "string \<Rightarrow> string" where
  "company_url name = ''/company?name='' @ name"

text \<open>
  The company-information API as the process sees it: the answer to the request that is
  the \<open>n\<close>-th one issued, for a given path, is the time it took and either an error
  (network error, status outside 2xx, timeout) or \<^verbatim>\<open>response.data\<close>.
\<close>

type_synonym http_api = "nat \<Rightarrow> string \<Rightarrow> nat \<times> (error + jsval)"

definition axios_get :: "http_api \<Rightarrow> string \<Rightarrow> world \<Rightarrow> (error + jsval) \<times> world" where
  "axios_get api url w =
     (case api (length (http_log w)) url of
        (elapsed, r) \<Rightarrow> (r, w\<lparr>now := now w + elapsed, http_log := http_log w @ [url]\<rparr>))"

text \<open>
  The \<^verbatim>\<open>try\<close> block of \<^verbatim>\<open>fetchCompanyInfo\<close>; \<open>Inl\<close> is what reaches \<^verbatim>\<open>catch\<close>: a failed
  request, or the TypeError of a name that cannot be converted.
\<close>

definition fetch_try :: "http_api \<Rightarrow> jsval \<Rightarrow> world \<Rightarrow> (error + jsval) \<times> world" where
  "fetch_try api companyName w =
     (case js_to_string companyName of
        Inl e \<Rightarrow> (Inl e, w)
      | Inr name \<Rightarrow>
          (let cachedInfo = cache_get w (company_key name) in
           if truthy cachedInfo then (Inr cachedInfo, w)
           else (case js_to_string companyName of
                   Inl e \<Rightarrow> (Inl e, w)
                 | Inr name \<Rightarrow>
                     (case axios_get api (company_url name) w of
                        (Inl e, w1) \<Rightarrow> (Inl e, w1)
                      | (Inr companyInfo, w1) \<Rightarrow>
                          (case js_to_string companyName of
                             Inl e \<Rightarrow> (Inl e, w1)
                           | Inr name \<Rightarrow>
                               (Inr companyInfo,
                                cache_set (company_key name) companyInfo w1))))))"

text \<open>
  \<^verbatim>\<open>fetchCompanyInfo(companyName, retries)\<close> called on its own, each request answered
  before anything else happens in the process. The result is the returned value, or the
  error the call is rejected with: the \<^verbatim>\<open>catch\<close> block builds the text of its
  \<^verbatim>\<open>console.warn\<close> or \<^verbatim>\<open>console.error\<close> from \<^verbatim>\<open>companyName\<close> (and \<^verbatim>\<open>retries\<close>, a number,
  whose conversion cannot throw), and an error thrown there leaves the function.
\<close>

function fetchCompanyInfo ::
  "http_api \<Rightarrow> jsval \<Rightarrow> int \<Rightarrow> world \<Rightarrow> (error + jsval) \<times> world" where
  "fetchCompanyInfo api companyName retries w =
     (case fetch_try api companyName w of
        (Inr v, w1) \<Rightarrow> (Inr v, w1)
      | (Inl error, w1) \<Rightarrow>
          if retries > 0
          then (case template_error [companyName] of
                  Some e \<Rightarrow> (Inl e, w1)
                | None \<Rightarrow> fetchCompanyInfo api companyName (retries - 1) w1)
          else (case template_error [companyName] of
                  Some e \<Rightarrow> (Inl e, w1)
                | None \<Rightarrow> (Inr JNull, w1)))"
  by pat_completeness auto
termination
  by (relation "measure (\<lambda>(api, companyName, retries, w). nat retries)") auto

definition default_retries :: int where
  "default_retries = 3"

section \<open>Email Content Generator\<close>

text \<open>The template literal of \<^verbatim>\<open>generateEmailContent\<close>, line breaks and indentation kept.\<close>

definition prompt_text :: "string \<Rightarrow> string \<Rightarrow> string \<Rightarrow> string \<Rightarrow> string" where
  "prompt_text email description companyName info = concat
     [[CHR 0x0A],
      ''    Write a professional email to '', email, '' about '', description, ''.'',
      [CHR 0x0A],
      ''    Use the following company information about '', companyName, '': '', info,
      [CHR 0x0A],
      ''    The email should focus on how the company information about '', companyName,
      '' (e.g., recent achievements, funding, market position, challenges, etc.) can help highlight the relevance and benefits of the description you are providing.'',
      [CHR 0x0A],
      ''    Emphasize how the description aligns with '', companyName, [CHR 0x27],
      ''s current needs or goals and how it can help them achieve those goals faster or more effectively, based on their current situation.'',
      [CHR 0x0A],
      ''    Ensure the tone is professional, clear, and concise, and position the description as a valuable opportunity for '',
      companyName, ''.'',
      [CHR 0x0A],
      ''    Keep the email under 150 words (it can be less, but should not exceed 150 words).'',
      [CHR 0x0A],
      ''  '']"

text \<open>
  The prompt, or the TypeError thrown while building it: by a property read on a
  recipient that is \<^verbatim>\<open>null\<close> or \<^verbatim>\<open>undefined\<close>, or by a substitution that cannot be
  converted. The later substitutions of \<^verbatim>\<open>recipient.companyName\<close> convert the same value
  again.
\<close>

definition email_prompt :: "jsval \<Rightarrow> jsval \<Rightarrow> error + string" where
  "email_prompt recipient companyInfo =
     (case js_get recipient ''email'' of
        Inl e \<Rightarrow> Inl e
      | Inr email \<Rightarrow>
     (case js_to_string email of
        Inl e \<Rightarrow> Inl e
      | Inr email_text \<Rightarrow>
     (case js_get recipient ''description'' of
        Inl e \<Rightarrow> Inl e
      | Inr description \<Rightarrow>
     (case js_to_string description of
        Inl e \<Rightarrow> Inl e
      | Inr description_text \<Rightarrow>
     (case js_get recipient ''companyName'' of
        Inl e \<Rightarrow> Inl e
      | Inr companyName \<Rightarrow>
     (case js_to_string companyName of
        Inl e \<Rightarrow> Inl e
      | Inr company_text \<Rightarrow>
          Inr (prompt_text email_text description_text company_text
                 (if truthy companyInfo then json_stringify companyInfo
                  else ''No company information provided.''))))))))"

text \<open>
  The error that leaves the \<^verbatim>\<open>catch\<close> block of \<^verbatim>\<open>generateEmailContent\<close>: the block
  builds the text of its \<^verbatim>\<open>console.error\<close> from \<^verbatim>\<open>recipient.email\<close>, which may throw, and
  otherwise throws the one generic error.
\<close>

definition generation_error :: "jsval \<Rightarrow> error" where
  "generation_error recipient =
     (case js_get recipient ''email'' of
        Inl e \<Rightarrow> e
      | Inr email \<Rightarrow>
          (case template_error [email] of
             Some e \<Rightarrow> e
           | None \<Rightarrow> Error ''Failed to generate email''))"

text \<open>The argument of \<^verbatim>\<open>openai.chat.completions.create\<close>.\<close>

definition completion_request :: "string \<Rightarrow> jsval" where
  "completion_request prompt =
     JObj [(''model'', JStr ''gpt-4o-mini''),
           (''messages'',
            JArr [JObj [(''role'', JStr ''system''),
                        (''content'', JStr ''You are a helpful assistant.'')],
                  JObj [(''role'', JStr ''user''), (''content'', JStr prompt)]])]"

text \<open>\<^verbatim>\<open>completion.choices[0].message.content.trim()\<close>; only a string has \<^verbatim>\<open>trim\<close>.\<close>

definition completion_text :: "jsval \<Rightarrow> error + string" where
  "completion_text completion =
     (case js_get completion ''choices'' of
        Inl e \<Rightarrow> Inl e
      | Inr choices \<Rightarrow>
     (case js_first choices of
        Inl e \<Rightarrow> Inl e
      | Inr choice \<Rightarrow>
     (case js_get choice ''message'' of
        Inl e \<Rightarrow> Inl e
      | Inr message \<Rightarrow>
     (case js_get message ''content'' of
        Inl e \<Rightarrow> Inl e
      | Inr (JStr s) \<Rightarrow> Inr (trim s)
      | Inr other \<Rightarrow> Inl TypeError))))"

section \<open>Bulk Generation Orchestrator\<close>

text \<open>
  \<^verbatim>\<open>recipients.map(async ...)\<close> starts one pipeline per recipient; each runs until its
  first pending external call, and goes on when that call is answered. A pipeline is
  either waiting for the company-information request (with the retries it has left),
  waiting for the completion, fulfilled with its \<^verbatim>\<open>{email, content}\<close> object, or
  rejected.
\<close>

datatype task =
    AwaitCompany jsval jsval int
  | AwaitCompletion jsval
  | Fulfilled jsval
  | Rejected error

text \<open>
  \<^verbatim>\<open>generateEmailContent(recipient, companyInfo)\<close> up to its \<^verbatim>\<open>await\<close>: the prompt is
  built and the completion call is issued, or the pipeline is rejected with the error
  of the \<^verbatim>\<open>catch\<close> block.
\<close>

definition begin_generate :: "jsval \<Rightarrow> jsval \<Rightarrow> world \<Rightarrow> task \<times> world" where
  "begin_generate recipient companyInfo w =
     (case email_prompt recipient companyInfo of
        Inl e \<Rightarrow> (Rejected (generation_error recipient), w)
      | Inr prompt \<Rightarrow>
          (AwaitCompletion recipient, w\<lparr>llm_log := llm_log w @ [completion_request prompt]\<rparr>))"

text \<open>
  \<^verbatim>\<open>fetchCompanyInfo(companyName, retries)\<close> inside a pipeline. \<open>begin_fetch\<close> is the
  \<^verbatim>\<open>try\<close> block up to its \<^verbatim>\<open>await\<close>: on a hit the pipeline goes on to the generator with
  the cached value, otherwise the request is issued. \<open>fetch_catch\<close> is the \<^verbatim>\<open>catch\<close>
  block: the pipeline is rejected when the text for the console cannot be built, and
  otherwise retries or goes on to the generator with \<^verbatim>\<open>null\<close>.
\<close>

function begin_fetch :: "jsval \<Rightarrow> jsval \<Rightarrow> int \<Rightarrow> world \<Rightarrow> task \<times> world"
  and fetch_catch :: "jsval \<Rightarrow> jsval \<Rightarrow> int \<Rightarrow> world \<Rightarrow> task \<times> world" where
  "begin_fetch recipient companyName retries w =
     (case js_to_string companyName of
        Inl e \<Rightarrow> fetch_catch recipient companyName retries w
      | Inr name \<Rightarrow>
          (let cachedInfo = cache_get w (company_key name) in
           if truthy cachedInfo then begin_generate recipient cachedInfo w
           else (case js_to_string companyName of
                   Inl e \<Rightarrow> fetch_catch recipient companyName retries w
                 | Inr name \<Rightarrow>
                     (AwaitCompany recipient companyName retries,
                      w\<lparr>http_log := http_log w @ [company_url name]\<rparr>))))"
| "fetch_catch recipient companyName retries w =
     (if retries > 0
      then (case template_error [companyName] of
              Some e \<Rightarrow> (Rejected e, w)
            | None \<Rightarrow> begin_fetch recipient companyName (retries - 1) w)
      else (case template_error [companyName] of
              Some e \<Rightarrow> (Rejected e, w)
            | None \<Rightarrow> begin_generate recipient JNull w))"
  by pat_completeness auto
termination
  by (relation "measure (\<lambda>x. case x of
        Inl (recipient, companyName, retries, w) \<Rightarrow> 2 * nat retries + 1
      | Inr (recipient, companyName, retries, w) \<Rightarrow> 2 * nat retries)") auto

definition begin_task :: "jsval \<Rightarrow> world \<Rightarrow> task \<times> world" where
  "begin_task recipient w =
     (case js_get recipient ''companyName'' of
        Inl e \<Rightarrow> (Rejected e, w)
      | Inr companyName \<Rightarrow> begin_fetch recipient companyName default_retries w)"

text \<open>
  A pipeline goes on with the answer to its pending call. After a company payload the
  key template is evaluated once more for \<^verbatim>\<open>cache.set\<close>, still inside the \<^verbatim>\<open>try\<close>.
\<close>

fun resume_task :: "task \<Rightarrow> error + jsval \<Rightarrow> world \<Rightarrow> task \<times> world" where
  "resume_task (AwaitCompany recipient companyName retries) (Inr companyInfo) w =
     (case js_to_string companyName of
        Inl e \<Rightarrow> fetch_catch recipient companyName retries w
      | Inr name \<Rightarrow>
          begin_generate recipient companyInfo (cache_set (company_key name) companyInfo w))"
| "resume_task (AwaitCompany recipient companyName retries) (Inl e) w =
     fetch_catch recipient companyName retries w"
| "resume_task (AwaitCompletion recipient) (Inr completion) w =
     (case completion_text completion of
        Inl e \<Rightarrow> (Rejected (generation_error recipient), w)
      | Inr content \<Rightarrow>
          (case js_get recipient ''email'' of
             Inl e \<Rightarrow> (Rejected e, w)
           | Inr email \<Rightarrow>
               (Fulfilled (JObj [(''email'', email), (''content'', JStr content)]), w)))"
| "resume_task (AwaitCompletion recipient) (Inl e) w =
     (Rejected (generation_error recipient), w)"
| "resume_task t r w = (t, w)"

fun start_all :: "jsval list \<Rightarrow> world \<Rightarrow> task list \<times> world" where
  "start_all [] w = ([], w)"
| "start_all (recipient # rest) w =
     (case begin_task recipient w of
        (t, w1) \<Rightarrow> (case start_all rest w1 of (ts, w2) \<Rightarrow> (t # ts, w2)))"

text \<open>
  What happens next in the process: the pending call of the pipeline at some position is
  answered, some time after the previous event, with an error or a payload. An event for
  a position that does not exist or for a settled pipeline changes nothing but the clock.
\<close>

datatype event = Completes nat nat "error + jsval"

fun step :: "task list \<times> world \<Rightarrow> event \<Rightarrow> task list \<times> world" where
  "step (ts, w) (Completes i elapsed r) =
     (let w1 = w\<lparr>now := now w + elapsed\<rparr> in
      if i < length ts
      then (case resume_task (ts ! i) r w1 of (t, w2) \<Rightarrow> (ts[i := t], w2))
      else (ts, w1))"

text \<open>
  \<^verbatim>\<open>Promise.all\<close>: rejected as soon as one pipeline is rejected, fulfilled with the values
  in the order of the pipelines once all are fulfilled, pending otherwise.
\<close>

datatype joined = Pending | Failure | Values "jsval list"

fun is_rejected :: "task \<Rightarrow> bool" where
  "is_rejected (Rejected e) = True"
| "is_rejected t = False"

fun fulfilled_values :: "task list \<Rightarrow> jsval list option" where
  "fulfilled_values [] = Some []"
| "fulfilled_values (Fulfilled v # ts) = map_option ((#) v) (fulfilled_values ts)"
| "fulfilled_values (t # ts) = None"

definition promise_all :: "task list \<Rightarrow> joined" where
  "promise_all ts =
     (if list_ex is_rejected ts then Failure
      else (case fulfilled_values ts of None \<Rightarrow> Pending | Some vs \<Rightarrow> Values vs))"

record response =
  status :: nat
  body :: jsval

definition field :: "(string \<times> jsval) list \<Rightarrow> string \<Rightarrow> jsval" where
  "field fs name = (case map_of fs name of None \<Rightarrow> JUndefined | Some v \<Rightarrow> v)"

text \<open>
  \<^verbatim>\<open>generateEmailController(req, res)\<close>. \<open>req_body\<close> is the parsed JSON object of the
  request, \<open>events\<close> the answers of the collaborators in the order they arrive. The
  result is what was sent with \<^verbatim>\<open>res.status(...).json(...)\<close>, or nothing when a
  pipeline is still waiting after the last event.
\<close>

definition generateEmailController ::
  "(string \<times> jsval) list \<Rightarrow> event list \<Rightarrow> world \<Rightarrow> response option \<times> world" where
  "generateEmailController req_body events w =
     (let recipients = field req_body ''recipients'' in
      if \<not> truthy recipients \<or> js_get recipients ''length'' = Inr (JNum (num 0))
      then (Some \<lparr>status = 400, body = JObj [(''error'', JStr ''Invalid request data'')]\<rparr>, w)
      else if \<not> isArray recipients
      then (Some \<lparr>status = 500, body = JObj [(''error'', JStr ''Failed to generate emails'')]\<rparr>, w)
      else (case foldl step (start_all (elements recipients) w) events of
              (ts, w1) \<Rightarrow>
                (case promise_all ts of
                   Pending \<Rightarrow> (None, w1)
                 | Failure \<Rightarrow>
                     (Some \<lparr>status = 500,
                            body = JObj [(''error'', JStr ''Failed to generate emails'')]\<rparr>, w1)
                 | Values emails \<Rightarrow>
                     (Some \<lparr>status = 200, body = JObj [(''emails'', JArr emails)]\<rparr>, w1))))"

section \<open>Bulk Sender\<close>

text \<open>The environment variables the module reads, and the transporter made from them.\<close>

record env =
  OPENAI_API_KEY :: "string option"
  EMAIL_SENDER :: "string option"
  EMAIL_PASS :: "string option"

record transport =
  service :: string
  auth_user :: "string option"
  auth_pass :: "string option"

definition createTransport :: "env \<Rightarrow> transport" where
  "createTransport e = \<lparr>service = ''gmail'', auth_user = EMAIL_SENDER e, auth_pass = EMAIL_PASS e\<rparr>"

text \<open>
  The mail service as the process sees it: for a transporter, the \<open>n\<close>-th call of
  \<^verbatim>\<open>sendMail\<close> and its options, the time taken and either an error or the \<^verbatim>\<open>info\<close>
  object.
\<close>

type_synonym mail_service = "transport \<Rightarrow> nat \<Rightarrow> mailOptions \<Rightarrow> nat \<times> (error + jsval)"

definition sendMail ::
  "mail_service \<Rightarrow> transport \<Rightarrow> mailOptions \<Rightarrow> world \<Rightarrow> (error + jsval) \<times> world" where
  "sendMail svc transporter options w =
     (case svc transporter (length (mail_log w)) options of
        (elapsed, r) \<Rightarrow> (r, w\<lparr>now := now w + elapsed, mail_log := mail_log w @ [options]\<rparr>))"

text \<open>
  The loop body before the send: \<^verbatim>\<open>const { email, content }\<close> of the element, the two
  \<^verbatim>\<open>content.split("\n")\<close> expressions and the option object. Only a string has
  \<^verbatim>\<open>split\<close>.
\<close>

definition mail_of :: "jsval \<Rightarrow> error + mailOptions" where
  "mail_of item =
     (case js_get item ''email'' of
        Inl e \<Rightarrow> Inl e
      | Inr email \<Rightarrow>
     (case js_get item ''content'' of
        Inl e \<Rightarrow> Inl e
      | Inr (JStr content) \<Rightarrow>
          Inr \<lparr>mail_from = JStr ''your-email@gmail.com'',
               mail_to = email,
               mail_subject =
                 (case split_on (CHR 0x0A) content of [] \<Rightarrow> JUndefined | s # rest \<Rightarrow> JStr s),
               mail_text = JStr (join_with [CHR 0x0A] (drop 1 (split_on (CHR 0x0A) content)))\<rparr>
      | Inr other \<Rightarrow> Inl TypeError))"

text \<open>
  The loop: \<open>None\<close> when it ran to the end, otherwise the error that left it. After a
  send, the text \<^verbatim>\<open>`Email sent to ${email}: ${info.response}`\<close> is built for
  \<^verbatim>\<open>console.log\<close>; \<^verbatim>\<open>email\<close> is the value that went into \<^verbatim>\<open>to\<close>.
\<close>

fun send_each ::
  "mail_service \<Rightarrow> transport \<Rightarrow> jsval list \<Rightarrow> world \<Rightarrow> error option \<times> world" where
  "send_each svc transporter [] w = (None, w)"
| "send_each svc transporter (item # rest) w =
     (case mail_of item of
        Inl e \<Rightarrow> (Some e, w)
      | Inr options \<Rightarrow>
          (case sendMail svc transporter options w of
             (Inl e, w1) \<Rightarrow> (Some e, w1)
           | (Inr info, w1) \<Rightarrow>
               (case js_to_string (mail_to options) of
                  Inl e \<Rightarrow> (Some e, w1)
                | Inr email_text \<Rightarrow>
                    (case js_get info ''response'' of
                       Inl e \<Rightarrow> (Some e, w1)
                     | Inr response \<Rightarrow>
                         (case js_to_string response of
                            Inl e \<Rightarrow> (Some e, w1)
                          | Inr response_text \<Rightarrow> send_each svc transporter rest w1)))))"

text \<open>\<^verbatim>\<open>emailSending(req, res)\<close>, with the mail service and the environment it runs in.\<close>

definition emailSending ::
  "env \<Rightarrow> mail_service \<Rightarrow> (string \<times> jsval) list \<Rightarrow> world \<Rightarrow> response \<times> world" where
  "emailSending e svc req_body w =
     (let emails = field req_body ''emails'' in
      if \<not> truthy emails \<or> \<not> isArray emails
      then (\<lparr>status = 400, body = JObj [(''error'', JStr ''Invalid email data format.'')]\<rparr>, w)
      else (case send_each svc (createTransport e) (elements emails) w of
              (None, w1) \<Rightarrow>
                (\<lparr>status = 200, body = JObj [(''message'', JStr ''Emails sent successfully!'')]\<rparr>, w1)
            | (Some err, w1) \<Rightarrow>
                (\<lparr>status = 500, body = JObj [(''error'', JStr ''Failed to send emails.'')]\<rparr>, w1)))"

section \<open>Pipelines and their recipients\<close>

text \<open>
  The relation kept between the recipient at a position of the request and the pipeline
  at that position: while pending the pipeline works for that recipient, and once
  fulfilled its value carries that recipient's \<^verbatim>\<open>email\<close> and a string \<^verbatim>\<open>content\<close>.
\<close>

inductive belongs :: "jsval \<Rightarrow> task \<Rightarrow> bool" where
  "belongs r (AwaitCompany r companyName retries)"
| "belongs r (AwaitCompletion r)"
| "js_get r ''email'' = Inr email \<Longrightarrow>
   belongs r (Fulfilled (JObj [(''email'', email), (''content'', JStr content)]))"
| "belongs r (Rejected e)"

section \<open>Example inputs\<close>

text \<open>Concrete states and collaborators on which the properties below are evaluated.\<close>

definition empty_world :: world where
  "empty_world = \<lparr>cache = Map.empty, now = 0, http_log = [], llm_log = [], mail_log = []\<rparr>"

definition acme_info :: jsval where
  "acme_info = JObj [(''name'', JStr ''Acme''), (''funding'', JNum (num 12))]"

definition api_up :: http_api where
  "api_up n url = (5, Inr acme_info)"

definition api_down :: http_api where
  "api_down n url = (5, Inl RequestFailed)"

definition api_blank :: http_api where
  "api_blank n url = (5, Inr (JStr []))"

definition odd_name :: jsval where
  "odd_name = JObj [(''toString'', JNum (num 1))]"

definition blank_cached_world :: world where
  "blank_cached_world = empty_world\<lparr>cache := [''company:Acme'' \<mapsto> (JStr [], 3600000)]\<rparr>"

definition acme_cached_world :: world where
  "acme_cached_world = empty_world\<lparr>cache := [''company:Acme'' \<mapsto> (acme_info, 3600000)], now := 3600000\<rparr>"

definition example_env :: env where
  "example_env = \<lparr>OPENAI_API_KEY = Some ''sk-test'', EMAIL_SENDER = Some ''sales@corp.example'',
     EMAIL_PASS = Some ''app-password''\<rparr>"

definition email_a :: jsval where
  "email_a = JObj [(''email'', JStr ''a@x.com''),
                   (''content'', JStr ''Subject A\<newline>Body line 1\<newline>Body line 2'')]"

definition email_b :: jsval where
  "email_b = JObj [(''email'', JStr ''b@y.com''), (''content'', JStr ''Hello B'')]"

definition send_body :: "(string \<times> jsval) list" where
  "send_body = [(''emails'', JArr [email_a, email_b])]"

definition svc_ok :: mail_service where
  "svc_ok transporter n options = (20, Inr (JObj [(''response'', JStr ''250 OK'')]))"

definition svc_down :: mail_service where
  "svc_down transporter n options = (20, Inl RequestFailed)"

definition mail_a :: mailOptions where
  "mail_a = \<lparr>mail_from = JStr ''your-email@gmail.com'', mail_to = JStr ''a@x.com'',
     mail_subject = JStr ''Subject A'', mail_text = JStr ''Body line 1\<newline>Body line 2''\<rparr>"

definition mail_b :: mailOptions where
  "mail_b = \<lparr>mail_from = JStr ''your-email@gmail.com'', mail_to = JStr ''b@y.com'',
     mail_subject = JStr ''Hello B'', mail_text = JStr []\<rparr>"

definition ok_response :: response where
  "ok_response = \<lparr>status = 200, body = JObj [(''message'', JStr ''Emails sent successfully!'')]\<rparr>"

definition failed_response :: response where
  "failed_response = \<lparr>status = 500, body = JObj [(''error'', JStr ''Failed to send emails.'')]\<rparr>"

definition invalid_response :: response where
  "invalid_response = \<lparr>status = 400, body = JObj [(''error'', JStr ''Invalid email data format.'')]\<rparr>"

definition recipient_a :: jsval where
  "recipient_a = JObj [(''email'', JStr ''a@x.com''), (''companyName'', JStr ''Acme''),
                       (''description'', JStr ''d1'')]"

definition recipient_b :: jsval where
  "recipient_b = JObj [(''email'', JStr ''b@y.com''), (''companyName'', JStr ''Bolt''),
                       (''description'', JStr ''d2'')]"

definition generate_body :: "(string \<times> jsval) list" where
  "generate_body = [(''recipients'', JArr [recipient_a, recipient_b])]"

definition completion_of :: "string \<Rightarrow> jsval" where
  "completion_of s = JObj [(''choices'', JArr [JObj [(''message'', JObj [(''content'', JStr s)])]])]"

definition events_all_ok :: "event list" where
  "events_all_ok =
     [Completes 1 5 (Inr acme_info),
      Completes 0 2 (Inl RequestFailed),
      Completes 1 300 (Inr (completion_of ''Hello B'')),
      Completes 0 4 (Inr acme_info),
      Completes 0 250 (Inr (completion_of '' Subject A\<newline>Body line 1\<newline>''))]"

definition events_a_fails :: "event list" where
  "events_a_fails =
     [Completes 1 5 (Inr acme_info),
      Completes 0 2 (Inr acme_info),
      Completes 0 250 (Inl RequestFailed)]"

definition events_b_late :: "event list" where
  "events_b_late = [Completes 1 300 (Inr (completion_of ''Hello B''))]"

definition generated_a :: jsval where
  "generated_a = JObj [(''email'', JStr ''a@x.com''),
                       (''content'', JStr ''Subject A\<newline>Body line 1'')]"

definition generated_b :: jsval where
  "generated_b = JObj [(''email'', JStr ''b@y.com''), (''content'', JStr ''Hello B'')]"

definition generation_failed :: response where
  "generation_failed =
     \<lparr>status = 500, body = JObj [(''error'', JStr ''Failed to generate emails'')]\<rparr>"

definition invalid_request :: response where
  "invalid_request = \<lparr>status = 400, body = JObj [(''error'', JStr ''Invalid request data'')]\<rparr>"

section \<open>Properties of the Company Info Fetcher\<close>

declare fetchCompanyInfo.simps [simp del]

lemma template_error_one:
  "template_error [v] = (case js_to_string v of Inl e \<Rightarrow> Some e | Inr s \<Rightarrow> None)"
  by (cases "js_to_string v") (simp_all add: template_error_def)

lemma fetch_try_unconvertible:
  "js_to_string n = Inl e \<Longrightarrow> fetch_try api n w = (Inl e, w)"
  by (simp add: fetch_try_def)

lemma fetch_try_hit:
  "js_to_string n = Inr name \<Longrightarrow> truthy (cache_get w (company_key name)) \<Longrightarrow>
   fetch_try api n w = (Inr (cache_get w (company_key name)), w)"
  by (simp add: fetch_try_def)

lemma fetch_try_miss_err:
  "js_to_string n = Inr name \<Longrightarrow> \<not> truthy (cache_get w (company_key name)) \<Longrightarrow>
   api (length (http_log w)) (company_url name) = (d, Inl e) \<Longrightarrow>
   fetch_try api n w =
     (Inl e, w\<lparr>now := now w + d, http_log := http_log w @ [company_url name]\<rparr>)"
  by (simp add: fetch_try_def axios_get_def)

lemma fetch_try_miss_ok:
  "js_to_string n = Inr name \<Longrightarrow> \<not> truthy (cache_get w (company_key name)) \<Longrightarrow>
   api (length (http_log w)) (company_url name) = (d, Inr v) \<Longrightarrow>
   fetch_try api n w =
     (Inr v, cache_set (company_key name) v
               (w\<lparr>now := now w + d, http_log := http_log w @ [company_url name]\<rparr>))"
  by (simp add: fetch_try_def axios_get_def)

lemma fetch_unconvertible:
  "js_to_string n = Inl e \<Longrightarrow> fetchCompanyInfo api n r w = (Inl e, w)"
  by (subst fetchCompanyInfo.simps) (simp add: fetch_try_unconvertible template_error_one)

lemma fetch_hit:
  "js_to_string n = Inr name \<Longrightarrow> truthy (cache_get w (company_key name)) \<Longrightarrow>
   fetchCompanyInfo api n r w = (Inr (cache_get w (company_key name)), w)"
  by (subst fetchCompanyInfo.simps) (simp add: fetch_try_hit)

lemma fetch_miss_ok:
  "js_to_string n = Inr name \<Longrightarrow> \<not> truthy (cache_get w (company_key name)) \<Longrightarrow>
   api (length (http_log w)) (company_url name) = (d, Inr v) \<Longrightarrow>
   fetchCompanyInfo api n r w =
     (Inr v, cache_set (company_key name) v
           (w\<lparr>now := now w + d, http_log := http_log w @ [company_url name]\<rparr>))"
  by (subst fetchCompanyInfo.simps) (simp add: fetch_try_miss_ok)

lemma fetch_miss_err:
  "js_to_string n = Inr name \<Longrightarrow> \<not> truthy (cache_get w (company_key name)) \<Longrightarrow>
   api (length (http_log w)) (company_url name) = (d, Inl e) \<Longrightarrow>
   fetchCompanyInfo api n r w =
     (if r > 0
      then fetchCompanyInfo api n (r - 1)
             (w\<lparr>now := now w + d, http_log := http_log w @ [company_url name]\<rparr>)
      else (Inr JNull, w\<lparr>now := now w + d, http_log := http_log w @ [company_url name]\<rparr>))"
  by (subst fetchCompanyInfo.simps) (simp add: fetch_try_miss_err template_error_one)

lemma cache_get_later:
  "\<not> truthy (cache_get w key) \<Longrightarrow> cache w' = cache w \<Longrightarrow> now w \<le> now w' \<Longrightarrow>
   \<not> truthy (cache_get w' key)"
  by (auto simp: cache_get_def split: option.splits if_splits)

lemma fetch_all_fail:
  assumes conv: "js_to_string n = Inr name"
    and fails: "\<forall>k. isl (snd (api k (company_url name)))"
  shows "\<not> truthy (cache_get w (company_key name)) \<Longrightarrow>
    fst (fetchCompanyInfo api n (int N) w) = Inr JNull \<and>
    http_log (snd (fetchCompanyInfo api n (int N) w)) =
      http_log w @ replicate (N + 1) (company_url name) \<and>
    cache (snd (fetchCompanyInfo api n (int N) w)) = cache w \<and>
    llm_log (snd (fetchCompanyInfo api n (int N) w)) = llm_log w \<and>
    mail_log (snd (fetchCompanyInfo api n (int N) w)) = mail_log w"
proof (induction N arbitrary: w)
  case 0
  obtain d r where reply: "api (length (http_log w)) (company_url name) = (d, r)"
    by (cases "api (length (http_log w)) (company_url name)")
  with fails have "isl r"
    by (metis snd_conv)
  then obtain e where "r = Inl e"
    by (cases r) auto
  with reply 0 show ?case
    by (simp add: fetch_miss_err [OF conv])
next
  case (Suc N)
  obtain d r where reply: "api (length (http_log w)) (company_url name) = (d, r)"
    by (cases "api (length (http_log w)) (company_url name)")
  with fails have "isl r"
    by (metis snd_conv)
  then obtain e where r: "r = Inl e"
    by (cases r) auto
  let ?w1 = "w\<lparr>now := now w + d, http_log := http_log w @ [company_url name]\<rparr>"
  have miss: "\<not> truthy (cache_get ?w1 (company_key name))"
    using Suc.prems by (rule cache_get_later) simp_all
  have unfold: "fetchCompanyInfo api n (int (Suc N)) w = fetchCompanyInfo api n (int N) ?w1"
    using reply r Suc.prems by (simp add: fetch_miss_err [OF conv])
  show ?case
    unfolding unfold using Suc.IH [OF miss] by (simp add: replicate_append_same)
qed

lemma cache_get_present:
  "cache w key = Some (v, expires) \<Longrightarrow> now w \<le> expires \<Longrightarrow> cache_get w key = v"
  by (simp add: cache_get_def)

lemma cache_get_after_set:
  "t \<le> now w + stdTTL * 1000 \<Longrightarrow> cache_get ((cache_set key v w)\<lparr>now := t\<rparr>) key = v"
  by (simp add: cache_get_def cache_set_def)

text \<open>
  Claim C1, as amended. When the entry of \<^verbatim>\<open>"company:" + companyName\<close> is present, not
  expired and truthy, \<^verbatim>\<open>fetchCompanyInfo\<close> returns the cached value and leaves the process
  state as it was: no request is issued and no retry is made, whatever the API would
  answer and whatever retry count is passed. In particular, after a fetch that missed
  the cache and was answered with a truthy payload, a second call for the same name at
  any time up to the expiration of the entry returns that payload and issues no request.
  The key is the one the template makes of the name, \<open>name\<close> being its string.
\<close>

theorem fetch_truthy_hit:
  "(js_to_string companyName = Inr name
      \<and> cache w (company_key name) = Some (v, expires) \<and> now w \<le> expires \<and> truthy v \<longrightarrow>
      fetchCompanyInfo api companyName retries w = (Inr v, w))
   \<and> (js_to_string companyName = Inr name
        \<and> \<not> truthy (cache_get w (company_key name))
        \<and> api (length (http_log w)) (company_url name) = (elapsed, Inr v) \<and> truthy v
        \<and> fetchCompanyInfo api companyName retries w = (r1, w1)
        \<and> now w1 \<le> t \<and> t \<le> now w1 + stdTTL * 1000 \<longrightarrow>
      r1 = Inr v \<and> http_log w1 = http_log w @ [company_url name]
      \<and> fetchCompanyInfo api2 companyName retries2 (w1\<lparr>now := t\<rparr>) = (Inr v, w1\<lparr>now := t\<rparr>))"
proof (intro conjI impI)
  assume a: "js_to_string companyName = Inr name
      \<and> cache w (company_key name) = Some (v, expires) \<and> now w \<le> expires \<and> truthy v"
  then have "cache_get w (company_key name) = v" and "truthy v"
    and conv: "js_to_string companyName = Inr name"
    by (simp_all add: cache_get_present)
  then show "fetchCompanyInfo api companyName retries w = (Inr v, w)"
    using fetch_hit [of companyName name w api retries] by simp
next
  assume a: "js_to_string companyName = Inr name
        \<and> \<not> truthy (cache_get w (company_key name))
        \<and> api (length (http_log w)) (company_url name) = (elapsed, Inr v) \<and> truthy v
        \<and> fetchCompanyInfo api companyName retries w = (r1, w1)
        \<and> now w1 \<le> t \<and> t \<le> now w1 + stdTTL * 1000"
  let ?w = "w\<lparr>now := now w + elapsed, http_log := http_log w @ [company_url name]\<rparr>"
  from a have conv: "js_to_string companyName = Inr name"
    and miss: "\<not> truthy (cache_get w (company_key name))"
    and reply: "api (length (http_log w)) (company_url name) = (elapsed, Inr v)"
    by simp_all
  have first: "fetchCompanyInfo api companyName retries w
      = (Inr v, cache_set (company_key name) v ?w)"
    using conv miss reply by (rule fetch_miss_ok)
  moreover from a have "fetchCompanyInfo api companyName retries w = (r1, w1)"
    by simp
  ultimately have "(r1, w1) = (Inr v, cache_set (company_key name) v ?w)"
    by simp
  then have r1: "r1 = Inr v" and w1: "w1 = cache_set (company_key name) v ?w"
    by simp_all
  show "r1 = Inr v" by (rule r1)
  show "http_log w1 = http_log w @ [company_url name]"
    by (simp add: w1 cache_set_def)
  have "now w1 = now ?w"
    by (simp add: w1 cache_set_def)
  with a have "t \<le> now ?w + stdTTL * 1000"
    by simp
  then have "cache_get (w1\<lparr>now := t\<rparr>) (company_key name) = v"
    unfolding w1 by (rule cache_get_after_set)
  with a conv show "fetchCompanyInfo api2 companyName retries2 (w1\<lparr>now := t\<rparr>) = (Inr v, w1\<lparr>now := t\<rparr>)"
    using fetch_hit [of companyName name "w1\<lparr>now := t\<rparr>" api2 retries2] by simp
qed

lemma name_acme: "js_to_string (JStr ''Acme'') = Inr ''Acme''"
  by simp

lemma key_acme: "company_key ''Acme'' = ''company:Acme''"
  by (simp add: company_key_def)

lemma url_acme: "company_url ''Acme'' = ''/company?name=Acme''"
  by (simp add: company_url_def)

text \<open>
  The two cases of C1 on the example inputs: an entry read at the very millisecond of its
  expiration, and a second call one hour after a first one that took 5 ms.
\<close>

theorem fetch_truthy_hit_witness:
  "fetchCompanyInfo api_down (JStr ''Acme'') 3 acme_cached_world = (Inr acme_info, acme_cached_world)
   \<and> fetchCompanyInfo api_up (JStr ''Acme'') 3 empty_world
       = (Inr acme_info, cache_set ''company:Acme'' acme_info
                       (empty_world\<lparr>now := 5, http_log := [''/company?name=Acme'']\<rparr>))
   \<and> fetchCompanyInfo api_down (JStr ''Acme'') 0
        ((cache_set ''company:Acme'' acme_info
            (empty_world\<lparr>now := 5, http_log := [''/company?name=Acme'']\<rparr>))\<lparr>now := 3600005\<rparr>)
       = (Inr acme_info, (cache_set ''company:Acme'' acme_info
            (empty_world\<lparr>now := 5, http_log := [''/company?name=Acme'']\<rparr>))\<lparr>now := 3600005\<rparr>)"
proof -
  let ?w1 = "cache_set ''company:Acme'' acme_info
               (empty_world\<lparr>now := 5, http_log := [''/company?name=Acme'']\<rparr>)"
  have first: "fetchCompanyInfo api_up (JStr ''Acme'') 3 empty_world = (Inr acme_info, ?w1)"
    by (simp add: fetch_miss_ok [where d = 5 and name = "''Acme''"] key_acme url_acme api_up_def
        empty_world_def cache_get_def)
  have h1: "js_to_string (JStr ''Acme'') = Inr ''Acme''
      \<and> cache acme_cached_world (company_key ''Acme'') = Some (acme_info, 3600000)
      \<and> now acme_cached_world \<le> 3600000 \<and> truthy acme_info"
    by (simp add: key_acme acme_cached_world_def empty_world_def acme_info_def)
  have h2: "js_to_string (JStr ''Acme'') = Inr ''Acme''
      \<and> \<not> truthy (cache_get empty_world (company_key ''Acme''))
      \<and> api_up (length (http_log empty_world)) (company_url ''Acme'') = (5, Inr acme_info)
      \<and> truthy acme_info
      \<and> fetchCompanyInfo api_up (JStr ''Acme'') 3 empty_world = (Inr acme_info, ?w1)
      \<and> now ?w1 \<le> 3600005 \<and> 3600005 \<le> now ?w1 + stdTTL * 1000"
    using first
    by (simp add: key_acme empty_world_def cache_get_def api_up_def acme_info_def
        cache_set_def stdTTL_def)
  from fetch_truthy_hit [where w = acme_cached_world and companyName = "JStr ''Acme''"
      and name = "''Acme''" and v = acme_info and expires = 3600000 and api = api_down
      and retries = 3] h1
  have "fetchCompanyInfo api_down (JStr ''Acme'') 3 acme_cached_world
      = (Inr acme_info, acme_cached_world)"
    by blast
  moreover
  from fetch_truthy_hit [where w = empty_world and companyName = "JStr ''Acme''"
      and name = "''Acme''"
      and v = acme_info and api = api_up and retries = 3 and elapsed = 5
      and ?r1.0 = "Inr acme_info"
      and ?w1.0 = ?w1 and t = 3600005 and ?api2.0 = api_down and ?retries2.0 = 0] h2
  have "fetchCompanyInfo api_down (JStr ''Acme'') 0 (?w1\<lparr>now := 3600005\<rparr>)
      = (Inr acme_info, ?w1\<lparr>now := 3600005\<rparr>)"
    by blast
  ultimately show ?thesis
    using first by simp
qed

text \<open>
  Claim C1 as stated fails when the cached value is falsy: with the empty string stored
  under \<^verbatim>\<open>"company:Acme"\<close> and far from expired, the call does not return the cached value
  with an unchanged state, it issues a request.
\<close>

theorem stale_falsy_entry_counterexample:
  "cache blank_cached_world ''company:Acme'' = Some (JStr [], 3600000)
   \<and> now blank_cached_world \<le> 3600000
   \<and> fetchCompanyInfo api_up (JStr ''Acme'') 3 blank_cached_world
       \<noteq> (Inr (JStr []), blank_cached_world)
   \<and> http_log (snd (fetchCompanyInfo api_up (JStr ''Acme'') 3 blank_cached_world))
       = [''/company?name=Acme'']"
proof -
  have miss: "\<not> truthy (cache_get blank_cached_world (company_key ''Acme''))"
    by (simp add: key_acme blank_cached_world_def empty_world_def cache_get_def)
  have reply: "api_up (length (http_log blank_cached_world)) (company_url ''Acme'')
      = (5, Inr acme_info)"
    by (simp add: api_up_def)
  show ?thesis
    using fetch_miss_ok [of "JStr ''Acme''" "''Acme''" blank_cached_world api_up 5 acme_info 3]
      miss reply
    by (simp add: key_acme url_acme blank_cached_world_def empty_world_def acme_info_def
        cache_set_def)
qed

lemma fetch_try_log:
  "fetch_try api n w = (r, w1) \<Longrightarrow> \<exists>rest. http_log w1 = http_log w @ rest"
  by (auto simp: fetch_try_def axios_get_def cache_set_def Let_def
      split: if_splits prod.splits sum.splits)

lemma fetch_log_prefix:
  "\<exists>rest. http_log (snd (fetchCompanyInfo api n r w)) = http_log w @ rest"
proof (induction api n r w rule: fetchCompanyInfo.induct)
  case (1 api n r w)
  obtain res w1 where step: "fetch_try api n w = (res, w1)"
    by (cases "fetch_try api n w")
  from fetch_try_log [OF step] obtain rest1 where log1: "http_log w1 = http_log w @ rest1"
    by auto
  show ?case
  proof (cases res)
    case (Inr v)
    with step log1 show ?thesis
      by (subst fetchCompanyInfo.simps) simp
  next
    case (Inl e)
    show ?thesis
    proof (cases "r > 0 \<and> template_error [n] = None")
      case True
      then have pos: "r > 0" and quiet: "template_error [n] = None"
        by simp_all
      from "1.IH" [OF step [unfolded Inl, symmetric] refl pos quiet]
      obtain rest where "http_log (snd (fetchCompanyInfo api n (r - 1) w1)) = http_log w1 @ rest"
        by auto
      with step Inl True log1 show ?thesis
        by (subst fetchCompanyInfo.simps) simp
    next
      case False
      with step Inl log1 show ?thesis
        by (subst fetchCompanyInfo.simps) (auto split: option.splits)
    qed
  qed
qed

lemma fetch_miss_log:
  assumes conv: "js_to_string n = Inr name"
    and miss: "\<not> truthy (cache_get w (company_key name))"
  shows "\<exists>rest. http_log (snd (fetchCompanyInfo api n r w)) = http_log w @ company_url name # rest"
proof -
  obtain d reply where reply: "api (length (http_log w)) (company_url name) = (d, reply)"
    by (cases "api (length (http_log w)) (company_url name)")
  let ?w1 = "w\<lparr>now := now w + d, http_log := http_log w @ [company_url name]\<rparr>"
  show ?thesis
  proof (cases reply)
    case (Inr v)
    with reply show ?thesis
      by (simp add: fetch_miss_ok [OF conv miss] cache_set_def)
  next
    case (Inl e)
    from fetch_log_prefix [of api n "r - 1" ?w1]
    obtain rest where "http_log (snd (fetchCompanyInfo api n (r - 1) ?w1)) = http_log ?w1 @ rest"
      by auto
    with reply Inl show ?thesis
      by (simp add: fetch_miss_err [OF conv miss])
  qed
qed

text \<open>
  Claim C2, as amended. For a \<^verbatim>\<open>companyName\<close> that converts to a string (every string
  does), when the lookup misses (in particular when the key is not in the cache) and
  every request for the company fails, \<^verbatim>\<open>fetchCompanyInfo(companyName, N)\<close> with \<open>N \<ge> 0\<close>
  issues exactly \<open>N + 1\<close> requests, all for that company, leaves the cache as it was, and
  returns \<^verbatim>\<open>null\<close>: the call is not rejected.
\<close>

theorem fetch_retries_exhausted:
  assumes conv: "js_to_string companyName = Inr name"
    and miss: "\<not> truthy (cache_get w (company_key name))"
    and fails: "\<forall>k. isl (snd (api k (company_url name)))"
    and retries: "0 \<le> retries"
  shows "fst (fetchCompanyInfo api companyName retries w) = Inr JNull
    \<and> http_log (snd (fetchCompanyInfo api companyName retries w))
        = http_log w @ replicate (nat retries + 1) (company_url name)
    \<and> cache (snd (fetchCompanyInfo api companyName retries w)) = cache w"
  using fetch_all_fail [where api = api and n = companyName and name = name and w = w
      and N = "nat retries"]
    conv fails miss retries
  by simp

text \<open>
  C2 on the example inputs: empty cache, an API that is down, the default of 3 retries,
  hence 4 requests.
\<close>

theorem fetch_retries_exhausted_witness:
  "js_to_string (JStr ''Acme'') = Inr ''Acme''
   \<and> cache empty_world (company_key ''Acme'') = None
   \<and> fst (fetchCompanyInfo api_down (JStr ''Acme'') 3 empty_world) = Inr JNull
   \<and> http_log (snd (fetchCompanyInfo api_down (JStr ''Acme'') 3 empty_world))
       = [''/company?name=Acme'', ''/company?name=Acme'', ''/company?name=Acme'',
          ''/company?name=Acme'']"
proof -
  have miss: "\<not> truthy (cache_get empty_world (company_key ''Acme''))"
    by (simp add: empty_world_def cache_get_def)
  have fails: "\<forall>k. isl (snd (api_down k (company_url ''Acme'')))"
    by (simp add: api_down_def)
  have "replicate 4 u = [u, u, u, u]" for u :: string
    by (simp add: numeral_eq_Suc)
  with fetch_retries_exhausted [where api = api_down and companyName = "JStr ''Acme''"
      and name = "''Acme''" and w = empty_world and retries = 3] miss fails
  show ?thesis
    by (simp add: url_acme empty_world_def)
qed

lemma odd_name_throws: "js_to_string odd_name = Inl TypeError"
  by (simp add: odd_name_def)

text \<open>
  Claim C2 as stated, for every \<^verbatim>\<open>companyName\<close>, fails for the name \<^verbatim>\<open>{"toString": 1}\<close>,
  which a request body can carry: with an empty cache and an API that is down, the key
  template throws inside \<^verbatim>\<open>try\<close>, the template of \<^verbatim>\<open>console.warn\<close> throws again inside
  \<^verbatim>\<open>catch\<close>, and the call is rejected with the TypeError after no request at all, where
  the claim has four requests and \<^verbatim>\<open>null\<close>.
\<close>

theorem unconvertible_name_counterexample:
  "dom (cache empty_world) = {}
   \<and> http_log empty_world = []
   \<and> fetchCompanyInfo api_down odd_name 3 empty_world = (Inl TypeError, empty_world)"
  by (simp add: fetch_unconvertible [OF odd_name_throws] empty_world_def)

text \<open>
  Claim C9. When the value stored under \<^verbatim>\<open>"company:" + companyName\<close> is falsy and its entry
  is not expired, \<^verbatim>\<open>fetchCompanyInfo\<close> issues a request for the company as its next
  external call. A payload that arrives after a miss is stored under the key with the
  full TTL whatever it is, a falsy one too. And a call that issued no request either
  returned a truthy value, the one served from the cache, or was rejected because the
  name has no string: falsy values are never served.
\<close>

theorem falsy_cached_value_refetched:
  "(js_to_string companyName = Inr name
      \<and> cache w (company_key name) = Some (v, expires) \<and> now w \<le> expires \<and> \<not> truthy v \<longrightarrow>
      take (Suc (length (http_log w))) (http_log (snd (fetchCompanyInfo api companyName retries w)))
        = http_log w @ [company_url name])
   \<and> (js_to_string companyName = Inr name
        \<and> \<not> truthy (cache_get w (company_key name))
        \<and> api (length (http_log w)) (company_url name) = (elapsed, Inr v) \<longrightarrow>
      fst (fetchCompanyInfo api companyName retries w) = Inr v
      \<and> cache (snd (fetchCompanyInfo api companyName retries w)) (company_key name)
          = Some (v, now w + elapsed + stdTTL * 1000))
   \<and> (http_log (snd (fetchCompanyInfo api companyName retries w)) = http_log w \<longrightarrow>
      (case fst (fetchCompanyInfo api companyName retries w) of
         Inr served \<Rightarrow> truthy served
       | Inl e \<Rightarrow> js_to_string companyName = Inl e))"
proof (intro conjI impI)
  assume a: "js_to_string companyName = Inr name
      \<and> cache w (company_key name) = Some (v, expires) \<and> now w \<le> expires \<and> \<not> truthy v"
  then have "cache_get w (company_key name) = v"
    by (simp add: cache_get_present)
  with a have conv: "js_to_string companyName = Inr name"
    and miss: "\<not> truthy (cache_get w (company_key name))"
    by simp_all
  from fetch_miss_log [OF conv miss, of api retries]
  show "take (Suc (length (http_log w))) (http_log (snd (fetchCompanyInfo api companyName retries w)))
        = http_log w @ [company_url name]"
    by auto
next
  assume a: "js_to_string companyName = Inr name
        \<and> \<not> truthy (cache_get w (company_key name))
        \<and> api (length (http_log w)) (company_url name) = (elapsed, Inr v)"
  then have "fetchCompanyInfo api companyName retries w =
     (Inr v, cache_set (company_key name) v
           (w\<lparr>now := now w + elapsed, http_log := http_log w @ [company_url name]\<rparr>))"
    by (simp add: fetch_miss_ok)
  then show "fst (fetchCompanyInfo api companyName retries w) = Inr v"
    and "cache (snd (fetchCompanyInfo api companyName retries w)) (company_key name)
          = Some (v, now w + elapsed + stdTTL * 1000)"
    by (simp_all add: cache_set_def)
next
  assume same: "http_log (snd (fetchCompanyInfo api companyName retries w)) = http_log w"
  show "case fst (fetchCompanyInfo api companyName retries w) of
         Inr served \<Rightarrow> truthy served
       | Inl e \<Rightarrow> js_to_string companyName = Inl e"
  proof (cases "js_to_string companyName")
    case (Inl e)
    then show ?thesis
      by (simp add: fetch_unconvertible)
  next
    case (Inr name)
    show ?thesis
    proof (cases "truthy (cache_get w (company_key name))")
      case True
      with Inr show ?thesis
        by (simp add: fetch_hit)
    next
      case False
      from fetch_miss_log [OF Inr False, of api retries] same show ?thesis
        by auto
    qed
  qed
qed

text \<open>
  C9 on the example inputs: the empty string cached for Acme and an API that answers with
  an empty body; and, for the third part, a truthy entry served from the cache.
\<close>

theorem falsy_cached_value_refetched_witness:
  "cache blank_cached_world (company_key ''Acme'') = Some (JStr [], 3600000)
   \<and> \<not> truthy (JStr [])
   \<and> take 1 (http_log (snd (fetchCompanyInfo api_blank (JStr ''Acme'') 3 blank_cached_world)))
       = [''/company?name=Acme'']
   \<and> fst (fetchCompanyInfo api_blank (JStr ''Acme'') 3 blank_cached_world) = Inr (JStr [])
   \<and> cache (snd (fetchCompanyInfo api_blank (JStr ''Acme'') 3 blank_cached_world)) ''company:Acme''
       = Some (JStr [], 3600005)
   \<and> http_log (snd (fetchCompanyInfo api_down (JStr ''Acme'') 3 acme_cached_world))
       = http_log acme_cached_world
   \<and> fst (fetchCompanyInfo api_down (JStr ''Acme'') 3 acme_cached_world) = Inr acme_info
   \<and> truthy acme_info"
proof -
  have h1: "js_to_string (JStr ''Acme'') = Inr ''Acme''
      \<and> cache blank_cached_world (company_key ''Acme'') = Some (JStr [], 3600000)
      \<and> now blank_cached_world \<le> 3600000 \<and> \<not> truthy (JStr [])"
    by (simp add: key_acme blank_cached_world_def empty_world_def)
  have h2: "js_to_string (JStr ''Acme'') = Inr ''Acme''
      \<and> \<not> truthy (cache_get blank_cached_world (company_key ''Acme''))
      \<and> api_blank (length (http_log blank_cached_world)) (company_url ''Acme'')
          = (5, Inr (JStr []))"
    by (simp add: key_acme blank_cached_world_def empty_world_def cache_get_def api_blank_def)
  have hit: "truthy (cache_get acme_cached_world (company_key ''Acme''))"
    and cached: "cache_get acme_cached_world (company_key ''Acme'') = acme_info"
    by (simp_all add: key_acme acme_cached_world_def empty_world_def cache_get_def acme_info_def)
  have served: "fetchCompanyInfo api_down (JStr ''Acme'') 3 acme_cached_world
      = (Inr acme_info, acme_cached_world)"
    using fetch_hit [OF name_acme hit, of api_down 3] cached by simp
  then have h3: "http_log (snd (fetchCompanyInfo api_down (JStr ''Acme'') 3 acme_cached_world))
      = http_log acme_cached_world"
    by simp
  note t1 = falsy_cached_value_refetched [where w = blank_cached_world
      and companyName = "JStr ''Acme''" and name = "''Acme''" and v = "JStr []"
      and expires = 3600000 and api = api_blank and retries = 3 and elapsed = 5]
  note t2 = falsy_cached_value_refetched [where w = acme_cached_world
      and companyName = "JStr ''Acme''" and api = api_down and retries = 3]
  from t1 h1 have c1: "take (Suc (length (http_log blank_cached_world)))
      (http_log (snd (fetchCompanyInfo api_blank (JStr ''Acme'') 3 blank_cached_world)))
        = http_log blank_cached_world @ [company_url ''Acme'']"
    by blast
  from t1 h2 have c2: "fst (fetchCompanyInfo api_blank (JStr ''Acme'') 3 blank_cached_world)
        = Inr (JStr [])
      \<and> cache (snd (fetchCompanyInfo api_blank (JStr ''Acme'') 3 blank_cached_world))
            (company_key ''Acme'')
          = Some (JStr [], now blank_cached_world + 5 + stdTTL * 1000)"
    by blast
  from t2 h3 have "case fst (fetchCompanyInfo api_down (JStr ''Acme'') 3 acme_cached_world) of
         Inr served \<Rightarrow> truthy served
       | Inl e \<Rightarrow> js_to_string (JStr ''Acme'') = Inl e"
    by blast
  with served have c3: "truthy acme_info"
    by simp
  from c1 have c1': "take 1 (http_log (snd (fetchCompanyInfo api_blank (JStr ''Acme'') 3 blank_cached_world)))
       = [''/company?name=Acme'']"
    by (simp add: url_acme blank_cached_world_def empty_world_def)
  from c2 have c2': "cache (snd (fetchCompanyInfo api_blank (JStr ''Acme'') 3 blank_cached_world)) ''company:Acme''
       = Some (JStr [], 3600005)"
    by (simp add: key_acme blank_cached_world_def empty_world_def stdTTL_def)
  from h1 c1' c2 c2' h3 served c3 show ?thesis
    by simp
qed

section \<open>Properties of the Bulk Sender\<close>

lemma split_on_not_Nil: "split_on sep s \<noteq> []"
  by (induction s) (auto split: list.splits)

lemma split_on_hd:
  "\<exists>segs. split_on sep s = takeWhile (\<lambda>c. c \<noteq> sep) s # segs"
  by (induction s) (auto split: list.splits)

lemma split_on_no_sep: "sep \<notin> set s \<Longrightarrow> split_on sep s = [s]"
  by (induction s) auto

lemma join_with_head: "join_with sep ((c # seg) # segs) = c # join_with sep (seg # segs)"
  by (cases segs) simp_all

lemma join_split_on: "join_with [sep] (split_on sep s) = s"
proof (induction s)
  case Nil
  show ?case by simp
next
  case (Cons c cs)
  obtain seg segs where segs: "split_on sep cs = seg # segs"
    using split_on_not_Nil [of sep cs] by (cases "split_on sep cs") auto
  with Cons show ?case
    by (simp add: join_with_head)
qed

lemma join_rest_split_on:
  "join_with [sep] (drop 1 (split_on sep s)) = drop 1 (dropWhile (\<lambda>c. c \<noteq> sep) s)"
proof (induction s)
  case Nil
  show ?case by simp
next
  case (Cons c cs)
  obtain seg segs where segs: "split_on sep cs = seg # segs"
    using split_on_not_Nil [of sep cs] by (cases "split_on sep cs") auto
  show ?case
  proof (cases "c = sep")
    case True
    then show ?thesis
      by (simp add: join_split_on)
  next
    case False
    with Cons segs show ?thesis
      by simp
  qed
qed

lemma drop_dropWhile: "drop 1 (dropWhile P s) = drop (Suc (length (takeWhile P s))) s"
  by (induction s) auto

lemma mail_of_Inr:
  assumes "mail_of item = Inr m"
  shows "\<exists>email content.
      js_get item ''email'' = Inr email \<and> js_get item ''content'' = Inr (JStr content)
      \<and> m = \<lparr>mail_from = JStr ''your-email@gmail.com'', mail_to = email,
              mail_subject = JStr (takeWhile (\<lambda>c. c \<noteq> CHR 0x0A) content),
              mail_text = JStr (join_with [CHR 0x0A] (drop 1 (split_on (CHR 0x0A) content)))\<rparr>"
proof -
  from assms obtain email where email: "js_get item ''email'' = Inr email"
    by (cases "js_get item ''email''") (auto simp: mail_of_def)
  from assms email obtain c where c: "js_get item ''content'' = Inr c"
    by (cases "js_get item ''content''") (auto simp: mail_of_def)
  from assms email c obtain content where content: "c = JStr content"
    by (cases c) (auto simp: mail_of_def)
  obtain segs where "split_on (CHR 0x0A) content = takeWhile (\<lambda>c. c \<noteq> CHR 0x0A) content # segs"
    using split_on_hd by blast
  with assms email c content show ?thesis
    by (auto simp: mail_of_def)
qed

lemma send_each_run:
  "send_each svc tr items w = (res, w') \<Longrightarrow>
   \<exists>ms. mail_log w' = mail_log w @ ms \<and> length ms \<le> length items
      \<and> (\<forall>j<length ms. mail_of (items ! j) = Inr (ms ! j))
      \<and> (\<forall>j<length ms. isl (snd (svc tr (length (mail_log w) + j) (ms ! j)))
             \<longrightarrow> Suc j = length ms \<and> res \<noteq> None)
      \<and> (res = None \<longrightarrow> length ms = length items)"
proof (induction items arbitrary: w res w')
  case Nil
  then show ?case by simp
next
  case (Cons item rest)
  show ?case
  proof (cases "mail_of item")
    case (Inl e)
    with Cons.prems have "w' = w" and "res = Some e"
      by simp_all
    then show ?thesis by simp
  next
    case (Inr opts)
    obtain d r where reply: "svc tr (length (mail_log w)) opts = (d, r)"
      by (cases "svc tr (length (mail_log w)) opts")
    let ?w1 = "w\<lparr>now := now w + d, mail_log := mail_log w @ [opts]\<rparr>"
    have sent: "sendMail svc tr opts w = (r, ?w1)"
      by (simp add: sendMail_def reply)
    have one: "\<exists>ms. mail_log ?w1 = mail_log w @ ms \<and> length ms \<le> length (item # rest)
        \<and> (\<forall>j<length ms. mail_of ((item # rest) ! j) = Inr (ms ! j))
        \<and> (\<forall>j<length ms. isl (snd (svc tr (length (mail_log w) + j) (ms ! j)))
               \<longrightarrow> Suc j = length ms \<and> Some e \<noteq> None)
        \<and> (Some e = None \<longrightarrow> length ms = length (item # rest))" for e :: error
      by (rule exI [of _ "[opts]"]) (simp add: Inr)
    show ?thesis
    proof (cases "\<exists>info. r = Inr info
        \<and> (\<exists>email_text. js_to_string (mail_to opts) = Inr email_text)
        \<and> (\<exists>response. js_get info ''response'' = Inr response
              \<and> (\<exists>response_text. js_to_string response = Inr response_text))")
      case False
      with Cons.prems Inr sent have "w' = ?w1 \<and> (\<exists>e. res = Some e)"
        by (auto split: sum.splits)
      then obtain e where "w' = ?w1" and "res = Some e"
        by auto
      with one [of e] show ?thesis by simp
    next
      case True
      then obtain info where info: "r = Inr info"
        by auto
      from True Cons.prems Inr sent have "send_each svc tr rest ?w1 = (res, w')"
        by auto
      from Cons.IH [OF this] obtain ms where
        log: "mail_log w' = mail_log ?w1 @ ms" and len: "length ms \<le> length rest"
        and each: "\<forall>j<length ms. mail_of (rest ! j) = Inr (ms ! j)"
        and fail: "\<forall>j<length ms. isl (snd (svc tr (length (mail_log ?w1) + j) (ms ! j)))
           \<longrightarrow> Suc j = length ms \<and> res \<noteq> None"
        and all: "res = None \<longrightarrow> length ms = length rest"
        by (elim exE conjE)
      have "mail_log w' = mail_log w @ (opts # ms)"
        using log by simp
      moreover have "length (opts # ms) \<le> length (item # rest)"
        using len by simp
      moreover have "\<forall>j<length (opts # ms). mail_of ((item # rest) ! j) = Inr ((opts # ms) ! j)"
        using each Inr by (auto simp: nth_Cons split: nat.splits)
      moreover have "\<forall>j<length (opts # ms).
          isl (snd (svc tr (length (mail_log w) + j) ((opts # ms) ! j)))
           \<longrightarrow> Suc j = length (opts # ms) \<and> res \<noteq> None"
      proof (intro allI impI)
        fix j
        assume j: "j < length (opts # ms)"
          and bad: "isl (snd (svc tr (length (mail_log w) + j) ((opts # ms) ! j)))"
        show "Suc j = length (opts # ms) \<and> res \<noteq> None"
        proof (cases j)
          case 0
          with bad reply info show ?thesis by simp
        next
          case (Suc k)
          with j bad have "k < length ms"
            and "isl (snd (svc tr (length (mail_log ?w1) + k) (ms ! k)))"
            by simp_all
          with fail have "Suc k = length ms \<and> res \<noteq> None"
            by blast
          with Suc show ?thesis by simp
        qed
      qed
      moreover have "res = None \<longrightarrow> length (opts # ms) = length (item # rest)"
        using all by simp
      ultimately show ?thesis
        by blast
    qed
  qed
qed

lemma emailSending_array:
  "field req_body ''emails'' = JArr items \<Longrightarrow>
   emailSending e svc req_body w =
     (case send_each svc (createTransport e) items w of
        (None, w1) \<Rightarrow>
          (\<lparr>status = 200, body = JObj [(''message'', JStr ''Emails sent successfully!'')]\<rparr>, w1)
      | (Some err, w1) \<Rightarrow>
          (\<lparr>status = 500, body = JObj [(''error'', JStr ''Failed to send emails.'')]\<rparr>, w1))"
  by (simp add: emailSending_def)

lemma emailSending_run:
  assumes arr: "field req_body ''emails'' = JArr items"
    and run: "emailSending e svc req_body w = (resp, w')"
  shows "\<exists>res. send_each svc (createTransport e) items w = (res, w')
    \<and> (res \<noteq> None \<longrightarrow>
          resp = \<lparr>status = 500, body = JObj [(''error'', JStr ''Failed to send emails.'')]\<rparr>)
    \<and> (res = None \<longrightarrow>
          resp = \<lparr>status = 200, body = JObj [(''message'', JStr ''Emails sent successfully!'')]\<rparr>)"
proof -
  obtain res w1 where loop: "send_each svc (createTransport e) items w = (res, w1)"
    by (cases "send_each svc (createTransport e) items w")
  with run show ?thesis
    unfolding emailSending_array [OF arr] by (cases res) auto
qed

lemma mail_of_email_a: "mail_of email_a = Inr mail_a"
  by (simp add: mail_of_def email_a_def mail_a_def)

lemma mail_of_email_b: "mail_of email_b = Inr mail_b"
  by (simp add: mail_of_def email_b_def mail_b_def)

lemma send_both_ok:
  "emailSending example_env svc_ok send_body empty_world
     = (ok_response, empty_world\<lparr>now := 40, mail_log := [mail_a, mail_b]\<rparr>)"
  by (simp add: emailSending_def send_body_def field_def mail_of_email_a mail_of_email_b
      sendMail_def svc_ok_def mail_a_def mail_b_def
      empty_world_def ok_response_def)

lemma send_first_fails:
  "emailSending example_env svc_down send_body empty_world
     = (\<lparr>status = 500, body = JObj [(''error'', JStr ''Failed to send emails.'')]\<rparr>,
        empty_world\<lparr>now := 20, mail_log := [mail_a]\<rparr>)"
  by (simp add: emailSending_def send_body_def field_def mail_of_email_a mail_of_email_b
      sendMail_def svc_down_def mail_a_def mail_b_def
      empty_world_def)

text \<open>
  Claim C3. In a run of \<^verbatim>\<open>emailSending\<close> on a list of emails, the \<open>j\<close>-th option object
  handed to the transporter comes from the \<open>j\<close>-th email, whose \<^verbatim>\<open>content\<close> is a string:
  its subject is the part of the content before the first newline, its text is the
  remaining segments of \<^verbatim>\<open>content.split("\n")\<close> joined by newlines, which is everything
  after the first newline. When the content has no newline, the subject is the whole
  content and the text is the empty string.
\<close>

theorem dispatched_subject_and_body:
  assumes arr: "field req_body ''emails'' = JArr items"
    and run: "emailSending e svc req_body w = (resp, w')"
    and j: "length (mail_log w) + j < length (mail_log w')"
  shows "\<exists>content.
      js_get (items ! j) ''content'' = Inr (JStr content)
      \<and> mail_subject (mail_log w' ! (length (mail_log w) + j))
          = JStr (takeWhile (\<lambda>c. c \<noteq> CHR 0x0A) content)
      \<and> mail_text (mail_log w' ! (length (mail_log w) + j))
          = JStr (join_with [CHR 0x0A] (drop 1 (split_on (CHR 0x0A) content)))
      \<and> mail_text (mail_log w' ! (length (mail_log w) + j))
          = JStr (drop (Suc (length (takeWhile (\<lambda>c. c \<noteq> CHR 0x0A) content))) content)
      \<and> (CHR 0x0A \<notin> set content \<longrightarrow>
            mail_subject (mail_log w' ! (length (mail_log w) + j)) = JStr content
            \<and> mail_text (mail_log w' ! (length (mail_log w) + j)) = JStr [])"
proof -
  from emailSending_run [OF arr run] obtain res where
    "send_each svc (createTransport e) items w = (res, w')"
    by (elim exE conjE)
  from send_each_run [OF this] obtain ms where
    log: "mail_log w' = mail_log w @ ms"
    and each: "\<forall>j<length ms. mail_of (items ! j) = Inr (ms ! j)"
    by (elim exE conjE)
  from log j have jm: "j < length ms" and at: "mail_log w' ! (length (mail_log w) + j) = ms ! j"
    by simp_all
  from each jm have "mail_of (items ! j) = Inr (ms ! j)"
    by simp
  from mail_of_Inr [OF this] obtain email content where
    c: "js_get (items ! j) ''content'' = Inr (JStr content)"
    and m: "ms ! j = \<lparr>mail_from = JStr ''your-email@gmail.com'', mail_to = email,
              mail_subject = JStr (takeWhile (\<lambda>c. c \<noteq> CHR 0x0A) content),
              mail_text = JStr (join_with [CHR 0x0A] (drop 1 (split_on (CHR 0x0A) content)))\<rparr>"
    by (elim exE conjE)
  have rest: "join_with [CHR 0x0A] (drop 1 (split_on (CHR 0x0A) content))
      = drop (Suc (length (takeWhile (\<lambda>c. c \<noteq> CHR 0x0A) content))) content"
    unfolding join_rest_split_on by (rule drop_dropWhile)
  have s1: "mail_subject (ms ! j) = JStr (takeWhile (\<lambda>c. c \<noteq> CHR 0x0A) content)"
    and t1: "mail_text (ms ! j) = JStr (join_with [CHR 0x0A] (drop 1 (split_on (CHR 0x0A) content)))"
    unfolding m by simp_all
  have t2: "mail_text (ms ! j)
      = JStr (drop (Suc (length (takeWhile (\<lambda>c. c \<noteq> CHR 0x0A) content))) content)"
    unfolding t1 rest ..
  have none: "mail_subject (ms ! j) = JStr content \<and> mail_text (ms ! j) = JStr []"
    if "CHR 0x0A \<notin> set content"
  proof -
    from that have tw: "takeWhile (\<lambda>c. c \<noteq> CHR 0x0A) content = content"
      by (auto simp: takeWhile_eq_all_conv)
    show ?thesis
      unfolding t2 s1 tw by simp
  qed
  show ?thesis
    unfolding at using c s1 t1 t2 none by (intro exI [of _ content]) simp
qed

text \<open>
  C3 on the example request: one content of three lines, one without a newline.
\<close>

theorem dispatched_subject_and_body_witness:
  "emailSending example_env svc_ok send_body empty_world
     = (ok_response, empty_world\<lparr>now := 40, mail_log := [mail_a, mail_b]\<rparr>)
   \<and> mail_subject mail_a = JStr ''Subject A''
   \<and> mail_text mail_a = JStr ''Body line 1\<newline>Body line 2''
   \<and> mail_subject mail_b = JStr ''Hello B''
   \<and> mail_text mail_b = JStr []"
proof -
  have arr: "field send_body ''emails'' = JArr [email_a, email_b]"
    by (simp add: field_def send_body_def)
  let ?w' = "empty_world\<lparr>now := 40, mail_log := [mail_a, mail_b]\<rparr>"
  have j0: "length (mail_log empty_world) + 0 < length (mail_log ?w')"
    and j1: "length (mail_log empty_world) + 1 < length (mail_log ?w')"
    by (simp_all add: empty_world_def)
  from dispatched_subject_and_body [OF arr send_both_ok j0]
  have a: "mail_subject mail_a = JStr ''Subject A''
      \<and> mail_text mail_a = JStr ''Body line 1\<newline>Body line 2''"
    by (simp add: empty_world_def email_a_def)
  from dispatched_subject_and_body [OF arr send_both_ok j1]
  have b: "mail_subject mail_b = JStr ''Hello B'' \<and> mail_text mail_b = JStr []"
    by (simp add: empty_world_def email_b_def)
  from a b send_both_ok show ?thesis
    by simp
qed

text \<open>
  Claim C4. The option objects handed to the transporter during a run of
  \<^verbatim>\<open>emailSending\<close> are those of a prefix of the email list, in the order of the list, each
  call made after the previous one was answered. A call that the mail service answers
  with an error is the last one of the run: no later email is dispatched, and the
  response is status 500 with \<^verbatim>\<open>{error: "Failed to send emails."}\<close>. The calls made before
  it stay in the log of what was sent; nothing undoes them.
\<close>

theorem sending_halts_on_failure:
  assumes arr: "field req_body ''emails'' = JArr items"
    and run: "emailSending e svc req_body w = (resp, w')"
  shows "\<exists>ms. mail_log w' = mail_log w @ ms \<and> length ms \<le> length items
      \<and> (\<forall>j<length ms. mail_of (items ! j) = Inr (ms ! j))
      \<and> (\<forall>j<length ms.
            isl (snd (svc (createTransport e) (length (mail_log w) + j) (ms ! j))) \<longrightarrow>
            Suc j = length ms
            \<and> resp = \<lparr>status = 500, body = JObj [(''error'', JStr ''Failed to send emails.'')]\<rparr>)"
proof -
  from emailSending_run [OF arr run] obtain res where
    loop: "send_each svc (createTransport e) items w = (res, w')"
    and failed: "res \<noteq> None \<longrightarrow>
      resp = \<lparr>status = 500, body = JObj [(''error'', JStr ''Failed to send emails.'')]\<rparr>"
    by (elim exE conjE)
  from send_each_run [OF loop] obtain ms where
    log: "mail_log w' = mail_log w @ ms" and len: "length ms \<le> length items"
    and each: "\<forall>j<length ms. mail_of (items ! j) = Inr (ms ! j)"
    and halt: "\<forall>j<length ms. isl (snd (svc (createTransport e) (length (mail_log w) + j) (ms ! j)))
             \<longrightarrow> Suc j = length ms \<and> res \<noteq> None"
    by (elim exE conjE)
  from halt failed have "\<forall>j<length ms.
      isl (snd (svc (createTransport e) (length (mail_log w) + j) (ms ! j))) \<longrightarrow>
      Suc j = length ms
      \<and> resp = \<lparr>status = 500, body = JObj [(''error'', JStr ''Failed to send emails.'')]\<rparr>"
    by simp
  with log len each show ?thesis
    by (intro exI [of _ ms] conjI)
qed

text \<open>
  C4 on the example request of two emails with a mail service that is down: the first
  email is handed over, the second never is, and the response is the 500.
\<close>

theorem sending_halts_on_failure_witness:
  "field send_body ''emails'' = JArr [email_a, email_b]
   \<and> isl (snd (svc_down (createTransport example_env) 0 mail_a))
   \<and> mail_log (snd (emailSending example_env svc_down send_body empty_world)) = [mail_a]
   \<and> fst (emailSending example_env svc_down send_body empty_world) = failed_response"
proof -
  have arr: "field send_body ''emails'' = JArr [email_a, email_b]"
    by (simp add: field_def send_body_def)
  obtain resp w' where run: "emailSending example_env svc_down send_body empty_world = (resp, w')"
    by (cases "emailSending example_env svc_down send_body empty_world")
  with send_first_fails have w': "w' = empty_world\<lparr>now := 20, mail_log := [mail_a]\<rparr>"
    by simp
  from sending_halts_on_failure [OF arr run] obtain ms where
    log: "mail_log w' = mail_log empty_world @ ms"
    and halt: "\<forall>j<length ms.
            isl (snd (svc_down (createTransport example_env) (length (mail_log empty_world) + j) (ms ! j))) \<longrightarrow>
            Suc j = length ms
            \<and> resp = \<lparr>status = 500, body = JObj [(''error'', JStr ''Failed to send emails.'')]\<rparr>"
    by (elim exE conjE)
  from log w' have ms: "ms = [mail_a]"
    by (simp add: empty_world_def)
  have down: "isl (snd (svc_down (createTransport example_env) 0 mail_a))"
    by (simp add: svc_down_def)
  from halt ms down have "resp = failed_response"
    by (simp add: empty_world_def failed_response_def)
  with arr down run w' show ?thesis
    by (simp add: empty_world_def)
qed

text \<open>
  Claim C8. When the \<^verbatim>\<open>emails\<close> field of the body is not an array, in particular when it is
  missing, \<^verbatim>\<open>emailSending\<close> answers status 400 with
  \<^verbatim>\<open>{error: "Invalid email data format."}\<close> and the process state is untouched: no mail is
  dispatched. The empty array passes the check: the answer is status 200 with
  \<^verbatim>\<open>{message: "Emails sent successfully!"}\<close>, again with nothing dispatched.
\<close>

theorem malformed_emails_rejected:
  "(\<not> isArray (field req_body ''emails'') \<longrightarrow>
      emailSending e svc req_body w =
        (\<lparr>status = 400, body = JObj [(''error'', JStr ''Invalid email data format.'')]\<rparr>, w))
   \<and> (map_of req_body ''emails'' = None \<longrightarrow>
      emailSending e svc req_body w =
        (\<lparr>status = 400, body = JObj [(''error'', JStr ''Invalid email data format.'')]\<rparr>, w))
   \<and> (field req_body ''emails'' = JArr [] \<longrightarrow>
      emailSending e svc req_body w =
        (\<lparr>status = 200, body = JObj [(''message'', JStr ''Emails sent successfully!'')]\<rparr>, w))"
  by (simp add: emailSending_def field_def)

text \<open>
  C8 on three bodies: \<^verbatim>\<open>{emails: "not-a-list"}\<close>, \<^verbatim>\<open>{}\<close> and \<^verbatim>\<open>{emails: []}\<close>.
\<close>

theorem malformed_emails_rejected_witness:
  "emailSending example_env svc_ok [(''emails'', JStr ''not-a-list'')] empty_world
     = (invalid_response, empty_world)
   \<and> emailSending example_env svc_ok [] empty_world = (invalid_response, empty_world)
   \<and> emailSending example_env svc_ok [(''emails'', JArr [])] empty_world
     = (ok_response, empty_world)"
proof -
  have h1: "\<not> isArray (field [(''emails'', JStr ''not-a-list'')] ''emails'')"
    by (simp add: field_def)
  have h2: "map_of ([] :: (string \<times> jsval) list) ''emails'' = None"
    by simp
  have h3: "field [(''emails'', JArr [])] ''emails'' = JArr []"
    by (simp add: field_def)
  note c1 = malformed_emails_rejected [where req_body = "[(''emails'', JStr ''not-a-list'')]"
      and e = example_env and svc = svc_ok and w = empty_world,
      THEN conjunct1, THEN mp, OF h1]
  note c2 = malformed_emails_rejected [where req_body = "[]"
      and e = example_env and svc = svc_ok and w = empty_world,
      THEN conjunct2, THEN conjunct1, THEN mp, OF h2]
  note c3 = malformed_emails_rejected [where req_body = "[(''emails'', JArr [])]"
      and e = example_env and svc = svc_ok and w = empty_world,
      THEN conjunct2, THEN conjunct2, THEN mp, OF h3]
  from c1 c2 c3 show ?thesis
    unfolding invalid_response_def ok_response_def by (intro conjI)
qed

text \<open>
  Claim C10. Whatever the environment holds (the configured sender address
  \<^verbatim>\<open>EMAIL_SENDER\<close> included) and whatever the mail service answers, every option object
  handed to the transporter has \<^verbatim>\<open>from\<close> equal to the string \<^verbatim>\<open>"your-email@gmail.com"\<close>; its
  \<^verbatim>\<open>to\<close> is the \<^verbatim>\<open>email\<close> of the email it comes from, and the whole object is the one
  \<open>mail_of\<close> computes from that email alone.
\<close>

theorem sender_address_fixed:
  assumes arr: "field req_body ''emails'' = JArr items"
    and run: "emailSending e svc req_body w = (resp, w')"
    and j: "length (mail_log w) + j < length (mail_log w')"
  shows "mail_from (mail_log w' ! (length (mail_log w) + j)) = JStr ''your-email@gmail.com''
    \<and> js_get (items ! j) ''email'' = Inr (mail_to (mail_log w' ! (length (mail_log w) + j)))
    \<and> mail_of (items ! j) = Inr (mail_log w' ! (length (mail_log w) + j))"
proof -
  from emailSending_run [OF arr run] obtain res where
    "send_each svc (createTransport e) items w = (res, w')"
    by (elim exE conjE)
  from send_each_run [OF this] obtain ms where
    log: "mail_log w' = mail_log w @ ms"
    and each: "\<forall>j<length ms. mail_of (items ! j) = Inr (ms ! j)"
    by (elim exE conjE)
  from log j have jm: "j < length ms" and at: "mail_log w' ! (length (mail_log w) + j) = ms ! j"
    by simp_all
  from each jm have item: "mail_of (items ! j) = Inr (ms ! j)"
    by simp
  from mail_of_Inr [OF item] obtain email content where
    "js_get (items ! j) ''email'' = Inr email"
    and "ms ! j = \<lparr>mail_from = JStr ''your-email@gmail.com'', mail_to = email,
              mail_subject = JStr (takeWhile (\<lambda>c. c \<noteq> CHR 0x0A) content),
              mail_text = JStr (join_with [CHR 0x0A] (drop 1 (split_on (CHR 0x0A) content)))\<rparr>"
    by (elim exE conjE)
  with item show ?thesis
    unfolding at by simp
qed

text \<open>
  C10 on the example request, with \<^verbatim>\<open>EMAIL_SENDER\<close> set to another address.
\<close>

theorem sender_address_fixed_witness:
  "EMAIL_SENDER example_env = Some ''sales@corp.example''
   \<and> emailSending example_env svc_ok send_body empty_world
       = (ok_response, empty_world\<lparr>now := 40, mail_log := [mail_a, mail_b]\<rparr>)
   \<and> mail_from mail_b = JStr ''your-email@gmail.com''
   \<and> js_get email_b ''email'' = Inr (mail_to mail_b)"
proof -
  have arr: "field send_body ''emails'' = JArr [email_a, email_b]"
    by (simp add: field_def send_body_def)
  have j: "length (mail_log empty_world) + 1
      < length (mail_log (empty_world\<lparr>now := 40, mail_log := [mail_a, mail_b]\<rparr>))"
    by (simp add: empty_world_def)
  from sender_address_fixed [OF arr send_both_ok j]
  have "mail_from mail_b = JStr ''your-email@gmail.com''
      \<and> js_get email_b ''email'' = Inr (mail_to mail_b)"
    by (simp add: empty_world_def)
  with send_both_ok show ?thesis
    by (simp add: example_env_def)
qed

text \<open>
  An email whose \<^verbatim>\<open>email\<close> cannot be converted is handed to the transporter, and then
  the text for \<^verbatim>\<open>console.log\<close> throws: the run ends with the 500 and the next email is
  not sent.
\<close>

lemma unconvertible_email_aborts:
  "emailSending example_env svc_ok
     [(''emails'', JArr [JObj [(''email'', odd_name), (''content'', JStr ''Hi'')], email_b])]
     empty_world
   = (failed_response,
      empty_world\<lparr>now := 20,
        mail_log := [\<lparr>mail_from = JStr ''your-email@gmail.com'', mail_to = odd_name,
                      mail_subject = JStr ''Hi'', mail_text = JStr []\<rparr>]\<rparr>)"
  by (simp add: emailSending_def field_def mail_of_def sendMail_def svc_ok_def odd_name_def
      empty_world_def failed_response_def)


section \<open>Properties of the Bulk Generation Orchestrator\<close>

subsection \<open>The fetcher inside a pipeline\<close>

text \<open>
  Inside a pipeline \<^verbatim>\<open>fetchCompanyInfo\<close> runs in pieces, between the answers to other
  pipelines. On its own, each piece does what the function called alone does: a name
  that cannot be converted rejects the pipeline with the error the function is rejected
  with, a hit goes on with the value the function returns, a miss issues the request, an
  answer with a payload goes on with that value and the state the function leaves, and an
  error leads to the same retry or to \<^verbatim>\<open>null\<close>.
\<close>

declare begin_fetch.simps [simp del] fetch_catch.simps [simp del]

lemma issue_then_wait:
  "w\<lparr>http_log := l, now := t\<rparr> = w\<lparr>now := t, http_log := l\<rparr>"
  by (cases w) simp

lemma fetch_catch_unconvertible:
  "js_to_string n = Inl e \<Longrightarrow> fetch_catch r n k w = (Rejected e, w)"
  by (subst fetch_catch.simps) (simp add: template_error_one)

lemma fetch_catch_convertible:
  "js_to_string n = Inr name \<Longrightarrow>
   fetch_catch r n k w = (if k > 0 then begin_fetch r n (k - 1) w else begin_generate r JNull w)"
  by (subst fetch_catch.simps) (simp add: template_error_one)

lemma begin_fetch_convertible:
  "js_to_string n = Inr name \<Longrightarrow>
   begin_fetch r n k w =
     (if truthy (cache_get w (company_key name)) then begin_generate r (cache_get w (company_key name)) w
      else (AwaitCompany r n k, w\<lparr>http_log := http_log w @ [company_url name]\<rparr>))"
  by (subst begin_fetch.simps) simp

lemma pipeline_fetch_unconvertible:
  assumes "js_to_string n = Inl e"
  shows "begin_fetch r n k w = (Rejected e, w)"
    and "fetchCompanyInfo api n k w = (Inl e, w)"
  using assms
  by (simp_all add: begin_fetch.simps [of r n k w] fetch_catch_unconvertible fetch_unconvertible)

lemma pipeline_fetch_hit:
  assumes "js_to_string n = Inr name" and "truthy (cache_get w (company_key name))"
  shows "begin_fetch r n k w = begin_generate r (cache_get w (company_key name)) w"
    and "fetchCompanyInfo api n k w = (Inr (cache_get w (company_key name)), w)"
  using assms by (simp_all add: begin_fetch_convertible fetch_hit)

lemma pipeline_fetch_issue:
  assumes "js_to_string n = Inr name" and "\<not> truthy (cache_get w (company_key name))"
  shows "begin_fetch r n k w
    = (AwaitCompany r n k, w\<lparr>http_log := http_log w @ [company_url name]\<rparr>)"
  using assms by (simp add: begin_fetch_convertible)

lemma pipeline_fetch_answer:
  assumes conv: "js_to_string n = Inr name"
    and miss: "\<not> truthy (cache_get w (company_key name))"
    and reply: "api (length (http_log w)) (company_url name) = (d, Inr v)"
    and w1: "w1 = w\<lparr>http_log := http_log w @ [company_url name], now := now w + d\<rparr>"
  shows "fetchCompanyInfo api n k w = (Inr v, cache_set (company_key name) v w1)"
    and "resume_task (AwaitCompany r n k) (Inr v) w1
      = begin_generate r v (cache_set (company_key name) v w1)"
  using fetch_miss_ok [where api = api and n = n and name = name and w = w and d = d
      and v = v and r = k]
    conv miss reply
  by (simp_all add: w1 issue_then_wait)

lemma pipeline_fetch_retry:
  assumes conv: "js_to_string n = Inr name"
    and miss: "\<not> truthy (cache_get w (company_key name))"
    and reply: "api (length (http_log w)) (company_url name) = (d, Inl e)"
    and w1: "w1 = w\<lparr>http_log := http_log w @ [company_url name], now := now w + d\<rparr>"
  shows "fetchCompanyInfo api n k w
      = (if k > 0 then fetchCompanyInfo api n (k - 1) w1 else (Inr JNull, w1))"
    and "resume_task (AwaitCompany r n k) (Inl e) w1
      = (if k > 0 then begin_fetch r n (k - 1) w1 else begin_generate r JNull w1)"
  using fetch_miss_err [where api = api and n = n and name = name and w = w and d = d
      and e = e and r = k]
    conv miss reply
  by (simp_all add: w1 issue_then_wait fetch_catch_convertible [OF conv])

subsection \<open>Pipelines\<close>

inductive_simps belongs_AwaitCompany: "belongs r (AwaitCompany r' n k)"

inductive_simps belongs_AwaitCompletion: "belongs r (AwaitCompletion r')"

inductive_simps belongs_Fulfilled: "belongs r (Fulfilled v)"

lemma begin_generate_cases:
  "fst (begin_generate r info w) = AwaitCompletion r
   \<or> fst (begin_generate r info w) = Rejected (generation_error r)"
  by (simp add: begin_generate_def split: sum.splits)

lemma begin_generate_belongs: "belongs r (fst (begin_generate r info w))"
  using begin_generate_cases [of r info w] by (auto intro: belongs.intros)

lemma begin_fetch_belongs: "belongs r (fst (begin_fetch r n k w))"
proof (cases "js_to_string n")
  case (Inl e)
  then show ?thesis
    by (simp add: pipeline_fetch_unconvertible belongs.intros)
next
  case (Inr name)
  then show ?thesis
    by (simp add: begin_fetch_convertible begin_generate_belongs belongs.intros)
qed

lemma fetch_catch_belongs: "belongs r (fst (fetch_catch r n k w))"
proof (cases "js_to_string n")
  case (Inl e)
  then show ?thesis
    by (simp add: fetch_catch_unconvertible belongs.intros)
next
  case (Inr name)
  then show ?thesis
    by (simp add: fetch_catch_convertible begin_generate_belongs begin_fetch_belongs)
qed

lemma begin_task_belongs: "belongs r (fst (begin_task r w))"
  by (simp add: begin_task_def begin_fetch_belongs belongs.intros split: sum.splits)

lemma resume_task_belongs: "belongs r t \<Longrightarrow> belongs r (fst (resume_task t reply w))"
proof (induction rule: belongs.induct)
  case (1 r companyName retries)
  show ?case
    by (cases reply)
      (simp_all add: begin_generate_belongs fetch_catch_belongs split: sum.splits)
next
  case (2 r)
  show ?case
    by (cases reply) (auto intro: belongs.intros split: sum.splits)
next
  case (3 r email content)
  then show ?case
    by (auto intro: belongs.intros)
next
  case (4 r e)
  show ?case
    by (auto intro: belongs.intros)
qed

lemma start_all_Cons:
  "start_all (r # rs) w =
     (fst (begin_task r w) # fst (start_all rs (snd (begin_task r w))),
      snd (start_all rs (snd (begin_task r w))))"
  by (simp add: case_prod_beta)

lemma step_Completes:
  "step (ts, w) (Completes i elapsed reply) =
     (if i < length ts
      then (ts[i := fst (resume_task (ts ! i) reply (w\<lparr>now := now w + elapsed\<rparr>))],
            snd (resume_task (ts ! i) reply (w\<lparr>now := now w + elapsed\<rparr>)))
      else (ts, w\<lparr>now := now w + elapsed\<rparr>))"
  by (simp add: Let_def case_prod_beta)

lemma start_all_length: "length (fst (start_all rs w)) = length rs"
  by (induction rs arbitrary: w) (simp_all add: start_all_Cons del: start_all.simps(2))

lemma start_all_belongs: "list_all2 belongs rs (fst (start_all rs w))"
proof (induction rs arbitrary: w)
  case Nil
  show ?case by simp
next
  case (Cons r rs)
  obtain t w1 where t: "begin_task r w = (t, w1)"
    by (cases "begin_task r w")
  obtain ts w2 where ts: "start_all rs w1 = (ts, w2)"
    by (cases "start_all rs w1")
  from begin_task_belongs [of r w] t have "belongs r t"
    by simp
  moreover from Cons.IH [of w1] ts have "list_all2 belongs rs ts"
    by simp
  ultimately show ?case
    using t ts by simp
qed

lemma step_length: "length (fst (step s ev)) = length (fst s)"
  by (cases s; cases ev) (simp add: step_Completes del: step.simps)

lemma run_length: "length (fst (foldl step s evs)) = length (fst s)"
  by (induction evs arbitrary: s) (simp_all add: step_length)

lemma step_belongs:
  assumes "list_all2 belongs rs (fst s)"
  shows "list_all2 belongs rs (fst (step s ev))"
proof -
  obtain ts w where s: "s = (ts, w)"
    by (cases s)
  obtain i elapsed reply where ev: "ev = Completes i elapsed reply"
    by (cases ev)
  let ?w1 = "w\<lparr>now := now w + elapsed\<rparr>"
  show ?thesis
  proof (cases "i < length ts")
    case False
    with assms s ev show ?thesis
      by simp
  next
    case True
    from assms s have all: "list_all2 belongs rs ts"
      by simp
    with True have "belongs (rs ! i) (ts ! i)"
      by (simp add: list_all2_conv_all_nth)
    then have "belongs (rs ! i) (fst (resume_task (ts ! i) reply ?w1))"
      by (rule resume_task_belongs)
    with all True have "list_all2 belongs rs (ts[i := fst (resume_task (ts ! i) reply ?w1)])"
      by (auto simp: list_all2_conv_all_nth nth_list_update)
    with s ev True show ?thesis
      by (simp add: step_Completes del: step.simps)
  qed
qed

lemma run_belongs:
  "list_all2 belongs rs (fst s) \<Longrightarrow> list_all2 belongs rs (fst (foldl step s evs))"
  by (induction evs arbitrary: s) (simp_all add: step_belongs)

lemma resume_rejected: "is_rejected t \<Longrightarrow> resume_task t reply w = (t, w)"
  by (cases t) simp_all

lemma step_rejected:
  assumes "i < length (fst s)" and "is_rejected (fst s ! i)"
  shows "is_rejected (fst (step s ev) ! i)"
proof -
  obtain ts w where s: "s = (ts, w)"
    by (cases s)
  obtain k elapsed reply where ev: "ev = Completes k elapsed reply"
    by (cases ev)
  show ?thesis
  proof (cases "k = i")
    case True
    with assms s ev show ?thesis
      by (simp add: step_Completes resume_rejected del: step.simps)
  next
    case False
    with assms s ev show ?thesis
      by (simp add: step_Completes del: step.simps)
  qed
qed

lemma run_rejected:
  "i < length (fst s) \<Longrightarrow> is_rejected (fst s ! i) \<Longrightarrow> is_rejected (fst (foldl step s evs) ! i)"
proof (induction evs arbitrary: s)
  case Nil
  then show ?case by simp
next
  case (Cons ev evs)
  from Cons.prems have "i < length (fst (step s ev))" and "is_rejected (fst (step s ev) ! i)"
    by (simp_all add: step_length step_rejected)
  then show ?case
    using Cons.IH [of "step s ev"] by simp
qed

lemma fulfilled_values_map: "fulfilled_values (map Fulfilled vs) = Some vs"
  by (induction vs) simp_all

lemma no_rejected_map: "\<not> list_ex is_rejected (map Fulfilled vs)"
  by (induction vs) simp_all

lemma promise_all_fulfilled: "promise_all (map Fulfilled vs) = Values vs"
  by (simp add: promise_all_def fulfilled_values_map no_rejected_map)

lemma promise_all_rejected: "i < length ts \<Longrightarrow> is_rejected (ts ! i) \<Longrightarrow> promise_all ts = Failure"
  by (auto simp: promise_all_def list_ex_iff)

lemma controller_array:
  assumes "field req_body ''recipients'' = JArr rs" and "rs \<noteq> []"
  shows "generateEmailController req_body events w =
     (case foldl step (start_all rs w) events of
        (ts, w1) \<Rightarrow>
          (case promise_all ts of
             Pending \<Rightarrow> (None, w1)
           | Failure \<Rightarrow>
               (Some \<lparr>status = 500,
                      body = JObj [(''error'', JStr ''Failed to generate emails'')]\<rparr>, w1)
           | Values emails \<Rightarrow>
               (Some \<lparr>status = 200, body = JObj [(''emails'', JArr emails)]\<rparr>, w1)))"
proof -
  from assms(2) have "num (int (length rs)) \<noteq> num 0"
    by transfer (auto simp: min_def)
  with assms(1) show ?thesis
    by (simp add: generateEmailController_def)
qed

text \<open>
  A recipient whose \<^verbatim>\<open>companyName\<close> cannot be converted: its pipeline is rejected with the
  TypeError at once, and no request is issued for it.
\<close>

lemma unconvertible_company_rejected:
  "begin_task (JObj [(''email'', JStr ''a@x.com''), (''companyName'', odd_name)]) w
     = (Rejected TypeError, w)"
  by (simp add: begin_task_def default_retries_def
      pipeline_fetch_unconvertible(1) [OF odd_name_throws])

lemmas pipeline_eval =
  start_all_Cons step_Completes begin_task_def begin_fetch.simps fetch_catch.simps
  begin_generate_def generation_error_def template_error_def
  email_prompt_def cache_get_def cache_set_def company_key_def company_url_def
  default_retries_def completion_text_def completion_of_def trim_def is_space_def
  recipient_a_def recipient_b_def acme_info_def empty_world_def

lemma run_all_ok:
  "fst (foldl step (start_all [recipient_a, recipient_b] empty_world) events_all_ok)
     = map Fulfilled [generated_a, generated_b]"
  by (simp add: pipeline_eval events_all_ok_def generated_a_def generated_b_def
      del: start_all.simps(2) step.simps)

lemma run_a_fails:
  "fst (foldl step (start_all [recipient_a, recipient_b] empty_world) events_a_fails)
     = [Rejected (Error ''Failed to generate email''), AwaitCompletion recipient_b]"
  by (simp add: pipeline_eval events_a_fails_def del: start_all.simps(2) step.simps)

text \<open>
  Claim C5. Once the pipeline of some recipient is rejected, the response of
  \<^verbatim>\<open>generateEmailController\<close> is status 500 with \<^verbatim>\<open>{error: "Failed to generate emails"}\<close>,
  whatever the other pipelines did before and whatever happens later: the body has the
  \<^verbatim>\<open>error\<close> field only, no list of the emails that were generated.
\<close>

theorem batch_fails_when_pipeline_throws:
  assumes arr: "field req_body ''recipients'' = JArr rs"
    and run: "foldl step (start_all rs w) events = (ts, w1)"
    and i: "i < length ts"
    and thrown: "ts ! i = Rejected err"
  shows "fst (generateEmailController req_body (events @ later) w)
    = Some \<lparr>status = 500, body = JObj [(''error'', JStr ''Failed to generate emails'')]\<rparr>"
proof -
  have "length ts = length rs"
    using run_length [of "start_all rs w" events] run by (simp add: start_all_length)
  with i have nonempty: "rs \<noteq> []"
    by auto
  let ?final = "foldl step (start_all rs w) (events @ later)"
  have final: "?final = foldl step (ts, w1) later"
    by (simp add: run)
  from i thrown have "is_rejected (fst (foldl step (ts, w1) later) ! i)"
    by (intro run_rejected) simp_all
  moreover from i have "i < length (fst (foldl step (ts, w1) later))"
    by (simp add: run_length)
  ultimately have "promise_all (fst ?final) = Failure"
    unfolding final by (intro promise_all_rejected)
  then show ?thesis
    unfolding controller_array [OF arr nonempty] by (simp add: case_prod_beta)
qed

text \<open>
  C5 on the example request: the completion call for the first recipient fails, the one
  for the second recipient succeeds afterwards, and the response is the 500.
\<close>

theorem batch_fails_when_pipeline_throws_witness:
  "field generate_body ''recipients'' = JArr [recipient_a, recipient_b]
   \<and> fst (foldl step (start_all [recipient_a, recipient_b] empty_world) events_a_fails) ! 0
       = Rejected (Error ''Failed to generate email'')
   \<and> fst (generateEmailController generate_body (events_a_fails @ events_b_late) empty_world)
       = Some generation_failed"
proof -
  have arr: "field generate_body ''recipients'' = JArr [recipient_a, recipient_b]"
    by (simp add: field_def generate_body_def)
  obtain ts w1 where run:
    "foldl step (start_all [recipient_a, recipient_b] empty_world) events_a_fails = (ts, w1)"
    by (cases "foldl step (start_all [recipient_a, recipient_b] empty_world) events_a_fails")
  with run_a_fails
  have ts: "ts = [Rejected (Error ''Failed to generate email''), AwaitCompletion recipient_b]"
    by simp
  then have i: "0 < length ts" and thrown: "ts ! 0 = Rejected (Error ''Failed to generate email'')"
    by simp_all
  from batch_fails_when_pipeline_throws [OF arr run i thrown, of events_b_late]
  have "fst (generateEmailController generate_body (events_a_fails @ events_b_late) empty_world)
       = Some generation_failed"
    by (simp add: generation_failed_def)
  with arr run ts show ?thesis
    by simp
qed

text \<open>
  Claim C6. For a non-empty recipient list whose pipelines are all fulfilled, the response
  of \<^verbatim>\<open>generateEmailController\<close> is status 200 with \<^verbatim>\<open>{emails: [...]}\<close>, the list holding
  one object per recipient, and the object at each position is \<^verbatim>\<open>{email, content}\<close> with
  the \<^verbatim>\<open>email\<close> of the recipient at that position and a string \<^verbatim>\<open>content\<close>, in whatever
  order the external calls were answered.
\<close>

theorem batch_succeeds_in_input_order:
  assumes arr: "field req_body ''recipients'' = JArr rs"
    and nonempty: "rs \<noteq> []"
    and run: "foldl step (start_all rs w) events = (map Fulfilled emails, w1)"
  shows "generateEmailController req_body events w
      = (Some \<lparr>status = 200, body = JObj [(''emails'', JArr emails)]\<rparr>, w1)
    \<and> length emails = length rs
    \<and> (\<forall>i<length rs. \<exists>email content.
          js_get (rs ! i) ''email'' = Inr email
          \<and> emails ! i = JObj [(''email'', email), (''content'', JStr content)])"
proof -
  have "list_all2 belongs rs (fst (foldl step (start_all rs w) events))"
    by (intro run_belongs start_all_belongs)
  with run have all: "list_all2 belongs rs (map Fulfilled emails)"
    by simp
  then have len: "length emails = length rs"
    by (simp add: list_all2_conv_all_nth)
  have each: "\<exists>email content. js_get (rs ! i) ''email'' = Inr email
      \<and> emails ! i = JObj [(''email'', email), (''content'', JStr content)]"
    if "i < length rs" for i
  proof -
    from all that len have "belongs (rs ! i) (Fulfilled (emails ! i))"
      by (simp add: list_all2_conv_all_nth)
    then show ?thesis
      by (auto simp: belongs_Fulfilled)
  qed
  have "generateEmailController req_body events w
      = (Some \<lparr>status = 200, body = JObj [(''emails'', JArr emails)]\<rparr>, w1)"
    unfolding controller_array [OF arr nonempty] by (simp add: run promise_all_fulfilled)
  with len each show ?thesis
    by simp
qed

text \<open>
  C6 on the example request: the second recipient's calls are answered first and the
  first recipient's company request is retried once; the emails come out in the order of
  the recipients.
\<close>

theorem batch_succeeds_in_input_order_witness:
  "field generate_body ''recipients'' = JArr [recipient_a, recipient_b]
   \<and> fst (generateEmailController generate_body events_all_ok empty_world)
       = Some \<lparr>status = 200, body = JObj [(''emails'', JArr [generated_a, generated_b])]\<rparr>
   \<and> js_get recipient_a ''email'' = Inr (JStr ''a@x.com'')
   \<and> js_get recipient_b ''email'' = Inr (JStr ''b@y.com'')"
proof -
  have arr: "field generate_body ''recipients'' = JArr [recipient_a, recipient_b]"
    by (simp add: field_def generate_body_def)
  have nonempty: "[recipient_a, recipient_b] \<noteq> []"
    by simp
  obtain ts w1 where run:
    "foldl step (start_all [recipient_a, recipient_b] empty_world) events_all_ok = (ts, w1)"
    by (cases "foldl step (start_all [recipient_a, recipient_b] empty_world) events_all_ok")
  with run_all_ok have ts: "ts = map Fulfilled [generated_a, generated_b]"
    by simp
  from batch_succeeds_in_input_order [OF arr nonempty run [unfolded ts]]
  have "generateEmailController generate_body events_all_ok empty_world
      = (Some \<lparr>status = 200, body = JObj [(''emails'', JArr [generated_a, generated_b])]\<rparr>, w1)"
    by (elim conjE)
  with arr show ?thesis
    by (simp add: recipient_a_def recipient_b_def)
qed

text \<open>
  Claim C7. When the \<^verbatim>\<open>recipients\<close> field of the body is missing, \<^verbatim>\<open>undefined\<close> or the
  empty array, \<^verbatim>\<open>generateEmailController\<close> answers status 400 with
  \<^verbatim>\<open>{error: "Invalid request data"}\<close> and the process state is untouched, whatever the
  collaborators would answer: no company request, no completion call, no change of the
  cache.
\<close>

theorem empty_recipients_rejected:
  "(map_of req_body ''recipients'' = None \<longrightarrow>
      generateEmailController req_body events w =
        (Some \<lparr>status = 400, body = JObj [(''error'', JStr ''Invalid request data'')]\<rparr>, w))
   \<and> (field req_body ''recipients'' = JUndefined \<longrightarrow>
      generateEmailController req_body events w =
        (Some \<lparr>status = 400, body = JObj [(''error'', JStr ''Invalid request data'')]\<rparr>, w))
   \<and> (field req_body ''recipients'' = JArr [] \<longrightarrow>
      generateEmailController req_body events w =
        (Some \<lparr>status = 400, body = JObj [(''error'', JStr ''Invalid request data'')]\<rparr>, w))"
  by (simp add: generateEmailController_def field_def)

text \<open>
  C7 on three bodies: \<^verbatim>\<open>{}\<close>, \<^verbatim>\<open>{recipients: undefined}\<close> and \<^verbatim>\<open>{recipients: []}\<close>.
\<close>

theorem empty_recipients_rejected_witness:
  "generateEmailController [] events_all_ok empty_world = (Some invalid_request, empty_world)
   \<and> generateEmailController [(''recipients'', JUndefined)] events_all_ok empty_world
       = (Some invalid_request, empty_world)
   \<and> generateEmailController [(''recipients'', JArr [])] events_all_ok empty_world
       = (Some invalid_request, empty_world)
   \<and> http_log empty_world = [] \<and> llm_log empty_world = []"
proof -
  have h1: "map_of ([] :: (string \<times> jsval) list) ''recipients'' = None"
    by simp
  have h2: "field [(''recipients'', JUndefined)] ''recipients'' = JUndefined"
    by (simp add: field_def)
  have h3: "field [(''recipients'', JArr [])] ''recipients'' = JArr []"
    by (simp add: field_def)
  note c1 = empty_recipients_rejected [where req_body = "[]" and events = events_all_ok
      and w = empty_world, THEN conjunct1, THEN mp, OF h1]
  note c2 = empty_recipients_rejected [where req_body = "[(''recipients'', JUndefined)]"
      and events = events_all_ok and w = empty_world,
      THEN conjunct2, THEN conjunct1, THEN mp, OF h2]
  note c3 = empty_recipients_rejected [where req_body = "[(''recipients'', JArr [])]"
      and events = events_all_ok and w = empty_world,
      THEN conjunct2, THEN conjunct2, THEN mp, OF h3]
  have logs: "http_log empty_world = [] \<and> llm_log empty_world = []"
    by (simp add: empty_world_def)
  from c1 c2 c3 logs show ?thesis
    unfolding invalid_request_def by (intro conjI) simp_all
qed

end
